theory Spec2Isabelle
  imports Main
begin

section \<open>JavaScript strings\<close>

text \<open>
  A string is a list of code units. The model keeps the code units 0..255 (ASCII and
  Latin-1), which is where every literal of the program lives. \<open>String.prototype.trim\<close>
  strips the white space and line terminators of that range from both ends,
  \<open>toLowerCase\<close> maps A..Z and the upper-case Latin-1 letters to their lower-case
  forms, \<open>split("\n")\<close> cuts at every line feed and always returns at least one piece.
\<close>

definition is_js_space :: "char \<Rightarrow> bool" where
  "is_js_space c \<longleftrightarrow> (of_char c :: nat) \<in> {9, 10, 11, 12, 13, 32, 160}"

definition trim :: "string \<Rightarrow> string" where
  "trim s = rev (dropWhile is_js_space (rev (dropWhile is_js_space s)))"

definition lower_char :: "char \<Rightarrow> char" where
  "lower_char c =
     (let n = of_char c :: nat in
      if (65 \<le> n \<and> n \<le> 90) \<or> (192 \<le> n \<and> n \<le> 222 \<and> n \<noteq> 215)
      then char_of (n + 32) else c)"

definition toLowerCase :: "string \<Rightarrow> string" where
  "toLowerCase s = map lower_char s"

fun split_nl :: "string \<Rightarrow> string list" where
  "split_nl [] = [[]]"
| "split_nl (c # cs) =
     (if c = CHR 0x0A then [] # split_nl cs
      else (case split_nl cs of [] \<Rightarrow> [[c]] | l # ls \<Rightarrow> (c # l) # ls))"

definition startsWith :: "string \<Rightarrow> string \<Rightarrow> bool" where
  "startsWith s p \<longleftrightarrow> take (length p) s = p"

definition slice :: "nat \<Rightarrow> string \<Rightarrow> string" where
  "slice n s = drop n s"

section \<open>The orchestrator\<close>

subsection \<open>Data\<close>

datatype role = System | User | Assistant

record ModelMessage =
  role :: role
  content :: string

datatype error = Error string

text \<open>
  A property of the configuration object is missing, present with the value
  \<open>undefined\<close>, or present with a value. The constructor builds its configuration as
  \<open>{ ...defaults, ...config }\<close>: the spread copies every property the caller's object
  has, an \<open>undefined\<close> one included, over the default.
\<close>

datatype 'a optional = Missing | Undefined | Given 'a

definition spread :: "'a \<Rightarrow> 'a optional \<Rightarrow> 'a option" where
  "spread dflt p = (case p of Missing \<Rightarrow> Some dflt | Undefined \<Rightarrow> None | Given v \<Rightarrow> Some v)"

text \<open>
  \<open>OrchestratorConfig\<close>, without the fields that only parametrise the model handle
  (\<open>supermemoryApiKey\<close>, \<open>region\<close>, \<open>modelId\<close>, \<open>verbose\<close>). \<open>composioApiKey\<close> and
  \<open>connectionIds\<close> have no default, so missing and \<open>undefined\<close> coincide for them.
\<close>

record OrchestratorConfig =
  userId :: string
  sessionId :: string
  streaming :: "bool optional"
  composioApiKey :: "string option"
  connectionIds :: "(string \<rightharpoonup> string) option"
  toneOfResponse :: "string optional"

record ResolvedConfig =
  r_userId :: string
  r_sessionId :: string
  r_streaming :: "bool option"
  r_composioApiKey :: "string option"
  r_connectionIds :: "(string \<rightharpoonup> string) option"
  r_toneOfResponse :: "string option"

text \<open>
  The state of one \<open>Orchestrator\<close> instance. \<open>delegationTools\<close> is \<open>undefined\<close> or
  the tools, which hold the user id and the Composio key they were created with.
  \<open>console_warn\<close> is the list of lines written with \<open>console.warn\<close>, oldest first;
  \<open>console.log\<close> and \<open>console.error\<close> lines are not modelled.
\<close>

record Orchestrator =
  config :: ResolvedConfig
  conversationHistory :: "ModelMessage list"
  delegationTools :: "(string \<times> string) option"
  console_warn :: "string list"

text \<open>
  The constructor. \<open>sys\<close> is the text of \<open>ORCHESTRATOR_SYSTEM_PROMPT\<close>; delegation
  tools are created when \<open>composioApiKey\<close> is a non-empty string.
\<close>

definition resolve :: "OrchestratorConfig \<Rightarrow> ResolvedConfig" where
  "resolve c =
     \<lparr> r_userId = userId c,
       r_sessionId = sessionId c,
       r_streaming = spread False (streaming c),
       r_composioApiKey = composioApiKey c,
       r_connectionIds = connectionIds c,
       r_toneOfResponse = spread ''concise and direct'' (toneOfResponse c) \<rparr>"

definition constructor :: "string \<Rightarrow> OrchestratorConfig \<Rightarrow> Orchestrator" where
  "constructor sys c =
     \<lparr> config = resolve c,
       conversationHistory = [\<lparr> role = System, content = sys \<rparr>],
       delegationTools =
         (case composioApiKey c of
            Some k \<Rightarrow> if k \<noteq> [] then Some (userId c, k) else None
          | None \<Rightarrow> None),
       console_warn = [] \<rparr>"

subsection \<open>Buffered mode\<close>

text \<open>
  \<open>userContent\<close>: the additional context, when it is a non-empty string, goes in
  front of the message.
\<close>

definition userContent :: "string \<Rightarrow> string option \<Rightarrow> string" where
  "userContent message additionalContext =
     (case additionalContext of
        Some ctx \<Rightarrow>
          if ctx \<noteq> [] then ctx @ ''\<newline>\<newline>User message: '' @ message else message
      | None \<Rightarrow> message)"

text \<open>
  The tone block of \<open>processMessage\<close>: the content to store and the warnings written.
  The block is skipped when the tone is \<open>undefined\<close> or the empty string.
\<close>

definition applyTone :: "string option \<Rightarrow> string \<Rightarrow> string \<times> string list" where
  "applyTone tone uc =
     (case tone of
        None \<Rightarrow> (uc, [])
      | Some tn \<Rightarrow>
          if tn = [] then (uc, [])
          else
            (let t = toLowerCase (trim tn) in
             if ''concise and direct'' = t then
               (uc @ ''\<newline>\<newline>Response Tone: Skip the fluff, speedrun the answer.\"'', [])
             else if ''professional and friendly'' = t then
               (uc @ ''\<newline>\<newline>Response Tone: Helpful genius, but fun at parties.\"'', [])
             else if ''detailed and conversational'' = t then
               (uc @ ''\<newline>\<newline>Nerd out and spill the tea.'', [])
             else
               (uc, [''[Orchestrator.processMessage] Invalid toneOfResponse: '' @ tn])))"

record RunUsage =
  inputTokens :: "nat option"
  outputTokens :: "nat option"
  totalTokens :: "nat option"

text \<open>What \<open>generateText\<close> resolves with, as far as \<open>processMessage\<close> reads it.\<close>

record GenerateTextResult =
  g_text :: string
  g_finishReason :: string
  g_usage :: RunUsage

record OrchestratorResponse =
  r_text :: string
  r_finishReason :: string
  r_usage :: RunUsage

definition push :: "ModelMessage \<Rightarrow> Orchestrator \<Rightarrow> Orchestrator" where
  "push m st = st\<lparr> conversationHistory := conversationHistory st @ [m] \<rparr>"

definition pop :: "Orchestrator \<Rightarrow> Orchestrator" where
  "pop st = st\<lparr> conversationHistory := butlast (conversationHistory st) \<rparr>"

text \<open>
  \<open>processMessage\<close>. The last argument is what \<open>await generateText(...)\<close> does on this
  call: it rejects with an error (\<open>Inl\<close>) or resolves with a result (\<open>Inr\<close>). The
  function returns the new state of the instance and what the caller gets: the error
  thrown, or the response.
\<close>

definition processMessage ::
  "Orchestrator \<Rightarrow> string \<Rightarrow> string option \<Rightarrow> error + GenerateTextResult
     \<Rightarrow> Orchestrator \<times> (error + OrchestratorResponse)" where
  "processMessage st message additionalContext generateText =
     (let (uc, warns) = applyTone (r_toneOfResponse (config st)) (userContent message additionalContext);
          st1 = st\<lparr> console_warn := console_warn st @ warns \<rparr>;
          st2 = push \<lparr> role = User, content = uc \<rparr> st1
      in case generateText of
           Inr result \<Rightarrow>
             (push \<lparr> role = Assistant, content = g_text result \<rparr> st2,
              Inr \<lparr> r_text = g_text result, r_finishReason = g_finishReason result,
                    r_usage = \<lparr> inputTokens = inputTokens (g_usage result),
                              outputTokens = outputTokens (g_usage result),
                              totalTokens = totalTokens (g_usage result) \<rparr> \<rparr>)
         | Inl e \<Rightarrow> (pop st2, Inl e))"

subsection \<open>Streaming mode\<close>

text \<open>
  \<open>result.textStream\<close> of \<open>streamText\<close> is an async iterable: it produces chunks one
  by one and then either ends or throws. \<open>streamText\<close> itself either throws when it is
  called (\<open>Inl\<close>) or returns such a stream.
\<close>

datatype stream_end = Ends | Fails error

record TextStream =
  chunks :: "string list"
  ending :: stream_end

text \<open>
  The async generator \<open>enhancedTextStream\<close>: the chunks its source has still to
  produce, how the source ends, the captured variables \<open>fullText\<close> and \<open>chunkCount\<close>,
  and whether the generator has completed.
\<close>

record TextGen =
  pending :: "string list"
  source_end :: stream_end
  fullText :: string
  chunkCount :: nat
  completed :: bool

definition processMessageStream ::
  "Orchestrator \<Rightarrow> string \<Rightarrow> string option \<Rightarrow> error + TextStream
     \<Rightarrow> Orchestrator \<times> (error + TextGen)" where
  "processMessageStream st message additionalContext streamText =
     (let uc = userContent message additionalContext;
          st1 = push \<lparr> role = User, content = uc \<rparr> st
      in case streamText of
           Inr result \<Rightarrow>
             (st1, Inr \<lparr> pending = chunks result, source_end = ending result,
                         fullText = [], chunkCount = 0, completed = False \<rparr>)
         | Inl e \<Rightarrow> (pop st1, Inl e))"

text \<open>
  One \<open>next()\<close> on the generator. While the source has a chunk, the chunk is counted,
  added to \<open>fullText\<close> and yielded. When the source has ended, the code after the loop
  runs: the assistant turn is pushed and the generator returns. When the source throws,
  the generator throws and completes. A completed generator answers \<open>done\<close>.
\<close>

datatype gen_result = Yield string | Done | Thrown error

definition gen_next :: "Orchestrator \<Rightarrow> TextGen \<Rightarrow> Orchestrator \<times> TextGen \<times> gen_result" where
  "gen_next st g =
     (if completed g then (st, g, Done)
      else case pending g of
        c # cs \<Rightarrow>
          (st, g\<lparr> pending := cs, chunkCount := chunkCount g + 1, fullText := fullText g @ c \<rparr>,
           Yield c)
      | [] \<Rightarrow>
          (case source_end g of
             Ends \<Rightarrow> (push \<lparr> role = Assistant, content = fullText g \<rparr> st,
                       g\<lparr> completed := True \<rparr>, Done)
           | Fails e \<Rightarrow> (st, g\<lparr> completed := True \<rparr>, Thrown e)))"

text \<open>
  \<open>return()\<close> on the generator, which is what leaving a \<open>for await\<close> early does: the
  generator completes where it is suspended, and nothing after the \<open>yield\<close> runs.
\<close>

definition gen_return :: "Orchestrator \<Rightarrow> TextGen \<Rightarrow> Orchestrator \<times> TextGen" where
  "gen_return st g = (st, g\<lparr> completed := True \<rparr>)"

text \<open>
  A consumer that takes \<open>k\<close> steps and then abandons the stream; it stops early when
  the generator is done or throws. The result holds the chunks received.
\<close>

fun take_steps :: "nat \<Rightarrow> Orchestrator \<Rightarrow> TextGen \<Rightarrow> Orchestrator \<times> TextGen \<times> string list \<times> gen_result option" where
  "take_steps 0 st g = (st, g, [], None)"
| "take_steps (Suc k) st g =
     (case gen_next st g of
        (st', g', Yield c) \<Rightarrow>
          (case take_steps k st' g' of (st'', g'', cs, r) \<Rightarrow> (st'', g'', c # cs, r))
      | (st', g', r) \<Rightarrow> (st', g', [], Some r))"

definition abandon_after :: "nat \<Rightarrow> Orchestrator \<Rightarrow> TextGen \<Rightarrow> Orchestrator \<times> TextGen \<times> string list" where
  "abandon_after k st g =
     (case take_steps k st g of
        (st', g', cs, _) \<Rightarrow> (case gen_return st' g' of (st'', g'') \<Rightarrow> (st'', g'', cs)))"

text \<open>
  A consumer that drains the stream, \<open>for await (const chunk of stream.textStream)\<close>:
  it asks for the next chunk until the generator is done or throws.
\<close>

function drain :: "Orchestrator \<Rightarrow> TextGen \<Rightarrow> Orchestrator \<times> TextGen \<times> string list \<times> error option" where
  "drain st g =
     (case gen_next st g of
        (st', g', Yield c) \<Rightarrow>
          (case drain st' g' of (st'', g'', cs, r) \<Rightarrow> (st'', g'', c # cs, r))
      | (st', g', Done) \<Rightarrow> (st', g', [], None)
      | (st', g', Thrown e) \<Rightarrow> (st', g', [], Some e))"
  by pat_completeness auto
termination
  by (relation "measure (\<lambda>(st, g). length (pending g))")
     (auto simp: gen_next_def split: if_splits list.splits stream_end.splits)

declare drain.simps [simp del]

subsection \<open>Sessions\<close>

text \<open>
  A call on an instance, with what the model did on it. A streamed call is consumed by
  \<open>for await\<close> until the stream is done or throws, as \<open>streamOrchestratorResponse\<close>
  does. A call is successful when the model step neither throws nor fails while it
  streams.
\<close>

datatype call =
    Buffered string "string option" "error + GenerateTextResult"
  | Streamed string "string option" "error + TextStream"

fun perform :: "Orchestrator \<Rightarrow> call \<Rightarrow> Orchestrator" where
  "perform st (Buffered message ctx generateText) = fst (processMessage st message ctx generateText)"
| "perform st (Streamed message ctx streamText) =
     (case processMessageStream st message ctx streamText of
        (st', Inl e) \<Rightarrow> st'
      | (st', Inr g) \<Rightarrow> fst (drain st' g))"

fun successful :: "call \<Rightarrow> bool" where
  "successful (Buffered message ctx generateText) =
     (case generateText of Inr _ \<Rightarrow> True | Inl _ \<Rightarrow> False)"
| "successful (Streamed message ctx streamText) =
     (case streamText of Inr s \<Rightarrow> ending s = Ends | Inl _ \<Rightarrow> False)"

definition run :: "Orchestrator \<Rightarrow> call list \<Rightarrow> Orchestrator" where
  "run st calls = foldl perform st calls"

text \<open>The generator once its source is used up: every pending chunk counted and added.\<close>

definition finish :: "TextGen \<Rightarrow> TextGen" where
  "finish g = g\<lparr> pending := [], chunkCount := chunkCount g + length (pending g),
      fullText := fullText g @ concat (pending g), completed := True \<rparr>"

section \<open>Delegation\<close>

subsection \<open>External collaborators\<close>

text \<open>
  The integration store, Composio and the sub-agent's model call are outside the
  program. Each is a function that either throws (\<open>Inl\<close>) or returns:
  \<open>IntegrationsClient.getIntegration(userId, connector)\<close> returns the stored
  integration or \<open>null\<close>; \<open>composio.tools.get(userId, { toolkits })\<close> returns tool
  bindings, each of which belongs to a toolkit; the sub-agent's \<open>generateText\<close> gets a
  toolset and a prompt and returns a text.
\<close>

datatype ThirdPartyConnectionStatus = initiated | active | inactive | failed

record ThirdPartyIntegration =
  i_connectionStatus :: ThirdPartyConnectionStatus
  i_connectionId :: string

record Tool =
  tool_name :: string
  toolkit :: string

record Externals =
  getIntegration :: "string \<Rightarrow> string \<Rightarrow> error + ThirdPartyIntegration option"
  composio_tools_get :: "string \<Rightarrow> string list \<Rightarrow> error + Tool list"
  agent_generateText :: "Tool list \<Rightarrow> string \<Rightarrow> error + string"

text \<open>The calls a delegation makes to Composio and to the sub-agent's model, in order.\<close>

datatype ext_call = ToolsGet string "string list" | GenerateText "Tool list" string

definition message :: "error \<Rightarrow> string" where
  "message e = (case e of Error m \<Rightarrow> m)"

subsection \<open>Resolving a connection\<close>

text \<open>
  \<open>this.config.connectionIds?.[connector] || null\<close>: the connection id configured for
  the connector, when there is one and it is not empty.
\<close>

definition configuredId :: "ResolvedConfig \<Rightarrow> string \<Rightarrow> string option" where
  "configuredId c connector =
     (case r_connectionIds c of
        None \<Rightarrow> None
      | Some ids \<Rightarrow>
          (case ids connector of
             None \<Rightarrow> None
           | Some cid \<Rightarrow> if cid \<noteq> [] then Some cid else None))"

text \<open>
  \<open>Orchestrator.getConnectionId\<close>: the id of the stored integration when it exists and
  is active; in every other case, a failed lookup included, the configured id or
  \<open>null\<close>. It never throws.
\<close>

definition getConnectionId :: "Externals \<Rightarrow> Orchestrator \<Rightarrow> string \<Rightarrow> string option" where
  "getConnectionId ext st connector =
     (case getIntegration ext (r_userId (config st)) connector of
        Inr (Some integration) \<Rightarrow>
          if i_connectionStatus integration = active then Some (i_connectionId integration)
          else configuredId (config st) connector
      | Inr None \<Rightarrow> configuredId (config st) connector
      | Inl e \<Rightarrow> configuredId (config st) connector)"

subsection \<open>Sub-agents\<close>

text \<open>
  \<open>SubAgentContext\<close>, without the model and SDK handles. The factories and executors
  return their outcome and the external calls they made.
\<close>

record SubAgentContext =
  tools :: "Tool list"
  connectedAccountId :: string

definition createGmailAgent ::
  "Externals \<Rightarrow> string \<Rightarrow> string \<Rightarrow> string \<Rightarrow> (error + SubAgentContext) \<times> ext_call list" where
  "createGmailAgent ext uid account apiKey =
     (case composio_tools_get ext uid [''gmail''] of
        Inl e \<Rightarrow> (Inl e, [ToolsGet uid [''gmail'']])
      | Inr ts \<Rightarrow>
          (Inr \<lparr> tools = ts, connectedAccountId = account \<rparr>, [ToolsGet uid [''gmail'']]))"

definition createCalendarAgent ::
  "Externals \<Rightarrow> string \<Rightarrow> string \<Rightarrow> string \<Rightarrow> (error + SubAgentContext) \<times> ext_call list" where
  "createCalendarAgent ext uid account apiKey =
     (case composio_tools_get ext uid [''googlecalendar''] of
        Inl e \<Rightarrow> (Inl e, [ToolsGet uid [''googlecalendar'']])
      | Inr ts \<Rightarrow>
          (Inr \<lparr> tools = ts, connectedAccountId = account \<rparr>, [ToolsGet uid [''googlecalendar'']]))"

definition executeGmailTask ::
  "Externals \<Rightarrow> SubAgentContext \<Rightarrow> string \<Rightarrow> (error + string) \<times> ext_call list" where
  "executeGmailTask ext agent task =
     (agent_generateText ext (tools agent) (''You are a Gmail assistant. '' @ task),
      [GenerateText (tools agent) (''You are a Gmail assistant. '' @ task)])"

definition executeCalendarTask ::
  "Externals \<Rightarrow> SubAgentContext \<Rightarrow> string \<Rightarrow> (error + string) \<times> ext_call list" where
  "executeCalendarTask ext agent task =
     (agent_generateText ext (tools agent) (''You are a Google Calendar assistant. '' @ task),
      [GenerateText (tools agent) (''You are a Google Calendar assistant. '' @ task)])"

subsection \<open>Delegation tools\<close>

text \<open>
  The \<open>execute\<close> functions of \<open>createDelegationTools\<close>. A tool returns \<open>{ result }\<close>
  or \<open>{ error }\<close>. \<open>getConnId\<close> is the callback it was created with; the callback is
  awaited before the \<open>try\<close>, so a rejection of the callback is a rejection of the tool.
\<close>

datatype tool_output = ResultOf string | ErrorOf string

definition delegate_to_gmail ::
  "Externals \<Rightarrow> string \<Rightarrow> string \<Rightarrow> (string \<Rightarrow> error + string option) \<Rightarrow> string
     \<Rightarrow> (error + tool_output) \<times> ext_call list" where
  "delegate_to_gmail ext uid apiKey getConnId task =
     (case getConnId ''gmail'' of
        Inl e \<Rightarrow> (Inl e, [])
      | Inr cid \<Rightarrow>
          (case cid of
             None \<Rightarrow>
               (Inr (ErrorOf ''Gmail not connected. Please connect Gmail first in your profile settings.''), [])
           | Some c \<Rightarrow>
               if c = [] then
                 (Inr (ErrorOf ''Gmail not connected. Please connect Gmail first in your profile settings.''), [])
               else
                 (case createGmailAgent ext uid c apiKey of
                    (Inl e, tr) \<Rightarrow> (Inr (ErrorOf (''Gmail task failed: '' @ message e)), tr)
                  | (Inr agent, tr) \<Rightarrow>
                      (case executeGmailTask ext agent task of
                         (Inl e, tr') \<Rightarrow>
                           (Inr (ErrorOf (''Gmail task failed: '' @ message e)), tr @ tr')
                       | (Inr r, tr') \<Rightarrow> (Inr (ResultOf r), tr @ tr')))))"

definition delegate_to_calendar ::
  "Externals \<Rightarrow> string \<Rightarrow> string \<Rightarrow> (string \<Rightarrow> error + string option) \<Rightarrow> string
     \<Rightarrow> (error + tool_output) \<times> ext_call list" where
  "delegate_to_calendar ext uid apiKey getConnId task =
     (case getConnId ''google_calendar'' of
        Inl e \<Rightarrow> (Inl e, [])
      | Inr cid \<Rightarrow>
          (case cid of
             None \<Rightarrow>
               (Inr (ErrorOf ''Google Calendar not connected. Please connect Calendar first in your profile settings.''), [])
           | Some c \<Rightarrow>
               if c = [] then
                 (Inr (ErrorOf ''Google Calendar not connected. Please connect Calendar first in your profile settings.''), [])
               else
                 (case createCalendarAgent ext uid c apiKey of
                    (Inl e, tr) \<Rightarrow> (Inr (ErrorOf (''Calendar task failed: '' @ message e)), tr)
                  | (Inr agent, tr) \<Rightarrow>
                      (case executeCalendarTask ext agent task of
                         (Inl e, tr') \<Rightarrow>
                           (Inr (ErrorOf (''Calendar task failed: '' @ message e)), tr @ tr')
                       | (Inr r, tr') \<Rightarrow> (Inr (ResultOf r), tr @ tr')))))"

text \<open>
  The tools of an orchestrator: the constructor creates them with its own
  \<open>getConnectionId\<close> as the callback. An instance without tools has none to invoke.
\<close>

datatype delegation_tool = Gmail | Calendar

definition connector_of :: "delegation_tool \<Rightarrow> string" where
  "connector_of t = (case t of Gmail \<Rightarrow> ''gmail'' | Calendar \<Rightarrow> ''google_calendar'')"

definition not_connected :: "delegation_tool \<Rightarrow> string" where
  "not_connected t =
     (case t of
        Gmail \<Rightarrow> ''Gmail not connected. Please connect Gmail first in your profile settings.''
      | Calendar \<Rightarrow> ''Google Calendar not connected. Please connect Calendar first in your profile settings.'')"

definition invoke_tool ::
  "Externals \<Rightarrow> Orchestrator \<Rightarrow> delegation_tool \<Rightarrow> string
     \<Rightarrow> ((error + tool_output) \<times> ext_call list) option" where
  "invoke_tool ext st t task =
     (case delegationTools st of
        None \<Rightarrow> None
      | Some (uid, apiKey) \<Rightarrow>
          Some ((case t of Gmail \<Rightarrow> delegate_to_gmail | Calendar \<Rightarrow> delegate_to_calendar)
                  ext uid apiKey (\<lambda>connector. Inr (getConnectionId ext st connector)) task))"

text \<open>The integration store holds an active connection of the user for the connector.\<close>

definition has_active_connection :: "Externals \<Rightarrow> string \<Rightarrow> string \<Rightarrow> bool" where
  "has_active_connection ext uid connector =
     (case getIntegration ext uid connector of
        Inr (Some i) \<Rightarrow> i_connectionStatus i = active
      | Inr None \<Rightarrow> False
      | Inl e \<Rightarrow> False)"

text \<open>
  What Composio promises about \<open>tools.get\<close>: every tool it returns belongs to one of
  the toolkits asked for.
\<close>

definition toolkit_filter :: "(string \<Rightarrow> string list \<Rightarrow> error + Tool list) \<Rightarrow> bool" where
  "toolkit_filter get \<longleftrightarrow>
     (\<forall>uid ks ts. get uid ks = Inr ts \<longrightarrow> (\<forall>t \<in> set ts. toolkit t \<in> set ks))"

text \<open>
  An external call stays within the toolkit \<open>k\<close>: a request for tools asks for \<open>k\<close>
  alone, and a model call gets tools of \<open>k\<close> alone.
\<close>

definition only_toolkit :: "string \<Rightarrow> ext_call \<Rightarrow> bool" where
  "only_toolkit k c =
     (case c of ToolsGet uid ks \<Rightarrow> ks = [k] | GenerateText ts prompt \<Rightarrow> list_all (\<lambda>t. toolkit t = k) ts)"

subsection \<open>The model step with tools\<close>

text \<open>
  Modelled from the spec: the tool loop of the model-invocation step, which is
  \<open>generateText\<close> of the library \<open>ai\<close> and not code of the repository. The spec, section
  2: the model may emit zero or more tool-call requests, each dispatched to a delegate,
  the results are folded back into the exchange, and the final text follows; section 7:
  a capability that is unavailable and a delegation that failed are folded in as
  ordinary tool results and do not unwind the turn, and a failure of the model
  invocation is fatal to the turn. A model is described by what it does: it answers, it
  fails, or it requests a tool with a task and goes on according to the tool's output.
  The step runs the requests against the tools of the instance; a tool that throws, or
  a request for a tool the instance does not have, fails the step.
\<close>

datatype model_behaviour =
    Answers GenerateTextResult
  | ModelFails error
  | Requests delegation_tool string "tool_output \<Rightarrow> model_behaviour"

primrec model_invocation ::
  "Externals \<Rightarrow> Orchestrator \<Rightarrow> model_behaviour \<Rightarrow> error + GenerateTextResult" where
  "model_invocation ext st (Answers r) = Inr r"
| "model_invocation ext st (ModelFails e) = Inl e"
| "model_invocation ext st (Requests t task k) =
     (case invoke_tool ext st t task of
        None \<Rightarrow> Inl (Error ''NoSuchToolError'')
      | Some (Inl e, tr) \<Rightarrow> Inl e
      | Some (Inr out, tr) \<Rightarrow> model_invocation ext st (k out))"

text \<open>The model itself does not fail, whatever the tools answer.\<close>

primrec never_fails :: "model_behaviour \<Rightarrow> bool" where
  "never_fails (Answers r) \<longleftrightarrow> True"
| "never_fails (ModelFails e) \<longleftrightarrow> False"
| "never_fails (Requests t task k) \<longleftrightarrow> (\<forall>out. never_fails (k out))"

section \<open>Server-Sent Events\<close>

subsection \<open>Encoding on the server\<close>

text \<open>\<open>String(n)\<close> and \<open>`${n}`\<close> for a natural number: its decimal digits.\<close>

fun show_nat :: "nat \<Rightarrow> string" where
  "show_nat n =
     (if n < 10 then [''0123456789'' ! n]
      else show_nat (n div 10) @ [''0123456789'' ! (n mod 10)])"

declare show_nat.simps [simp del]

datatype ServerSentEvent = EvMessage | EvError | EvComplete | EvConnection

definition event_name :: "ServerSentEvent \<Rightarrow> string" where
  "event_name e =
     (case e of EvMessage \<Rightarrow> ''message'' | EvError \<Rightarrow> ''error''
              | EvComplete \<Rightarrow> ''complete'' | EvConnection \<Rightarrow> ''connection'')"

record SSEMessage =
  sse_data :: string
  sse_event :: ServerSentEvent
  sse_id :: "string option"
  sse_retry :: "nat option"

text \<open>
  \<open>formatSSE\<close>. The event name is never empty, so its line is always written; the
  \<open>id\<close> line is written for a non-empty id, the \<open>retry\<close> line for a non-zero number;
  the data is split at line feeds and every piece gets a \<open>data:\<close> line of its own.
\<close>

definition formatSSE :: "SSEMessage \<Rightarrow> string" where
  "formatSSE m =
     (let output = [];
          output = output @ ''event: '' @ event_name (sse_event m) @ ''\<newline>'';
          output = (case sse_id m of
                      Some i \<Rightarrow> if i \<noteq> [] then output @ ''id: '' @ i @ ''\<newline>'' else output
                    | None \<Rightarrow> output);
          output = (case sse_retry m of
                      Some r \<Rightarrow>
                        if r \<noteq> 0 then output @ ''retry: '' @ show_nat r @ ''\<newline>'' else output
                    | None \<Rightarrow> output);
          output = foldl (\<lambda>out line. out @ ''data: '' @ line @ ''\<newline>'') output
                     (split_nl (sse_data m))
      in output @ ''\<newline>'')"

text \<open>
  What \<open>streamOrchestratorResponse\<close> yields for a text stream that produces the chunks
  \<open>cs\<close> and ends: one \<open>message\<close> event per chunk, numbered from 1, then \<open>complete\<close>.
\<close>

fun message_frames :: "nat \<Rightarrow> string list \<Rightarrow> SSEMessage list" where
  "message_frames chunkId [] = []"
| "message_frames chunkId (chunk # rest) =
     \<lparr> sse_data = chunk, sse_event = EvMessage, sse_id = Some (show_nat chunkId), sse_retry = None \<rparr>
       # message_frames (chunkId + 1) rest"

definition streamOrchestratorResponse :: "string list \<Rightarrow> SSEMessage list" where
  "streamOrchestratorResponse cs =
     message_frames 1 cs
       @ [\<lparr> sse_data = ''[DONE]'', sse_event = EvComplete, sse_id = None, sse_retry = None \<rparr>]"

subsection \<open>Decoding on the client\<close>

text \<open>
  \<open>parseSSEChunk\<close>: the text is split at line feeds; an \<open>event:\<close> line sets the event,
  a \<open>data:\<close> line sets the data, the last line of each kind wins; the result is \<open>null\<close>
  when the data is empty.
\<close>

definition parseSSEChunk :: "string \<Rightarrow> (string \<times> string) option" where
  "parseSSEChunk chunk =
     (let (event, data) =
            foldl (\<lambda>(event, data) line.
                     if startsWith line ''event: '' then (trim (slice 7 line), data)
                     else if startsWith line ''data: '' then (event, slice 6 line)
                     else (event, data))
                  (''message'', []) (split_nl chunk)
      in if data \<noteq> [] then Some (event, data) else None)"

text \<open>
  The state of the \<open>useChatStream\<close> hook: its four state variables, its three refs
  (\<open>abortControllerRef\<close> is true when the ref holds a controller), whether the read loop
  of \<open>startStream\<close> is running, and the calls made to the caller's callbacks, oldest
  first.
\<close>

datatype StreamStatus = S_idle | S_connecting | S_streaming | S_error | S_completed
datatype ConnectionStatus = C_disconnected | C_connecting | C_connected | C_streaming | C_error

record StreamError =
  se_message :: string
  se_code :: string

datatype callback =
    OnConnection
  | OnMessageChunk string string
  | OnComplete string
  | OnError StreamError

record ChatStream =
  status :: StreamStatus
  connectionStatus :: ConnectionStatus
  streamedMessage :: string
  streamError :: "StreamError option"
  abortControllerRef :: bool
  accumulatedMessageRef :: string
  completedRef :: bool
  reading :: bool
  callbacks :: "callback list"

text \<open>
  What is thrown or rejected: an \<open>AbortError\<close>, another \<open>Error\<close> with its message, or a
  value that is not an \<open>Error\<close>.
\<close>

datatype rejection = AbortError | ErrorThrown string | NonErrorThrown

text \<open>
  How the connection phase of \<open>startStream\<close> goes: \<open>getToken\<close> rejects, \<open>fetch\<close>
  rejects, the response is not ok, the response has no body, or the body can be read.
\<close>

datatype connect_outcome =
    TokenRejected rejection
  | FetchRejected rejection
  | HttpNotOk nat string
  | BodyNull
  | Connected

text \<open>
  What happens next to a stream that is being read: a read returns text, a read reports
  the end of the stream, a read rejects, or the caller calls \<open>stopStream\<close>.
\<close>

datatype stream_event = ReadChunk string | ReadDone | ReadRejected rejection | StopStream

text \<open>
  The guarded call of the completion callback, which the source writes out in three
  places: \<open>if (!completedRef.current) { completedRef.current = true; onComplete?.(finalMessage) }\<close>.
\<close>

definition fire_onComplete :: "ChatStream \<Rightarrow> ChatStream" where
  "fire_onComplete s =
     (if \<not> completedRef s
      then s\<lparr> completedRef := True,
              callbacks := callbacks s @ [OnComplete (accumulatedMessageRef s)] \<rparr>
      else s)"

text \<open>The outer \<open>catch\<close> of \<open>startStream\<close>: an \<open>AbortError\<close> is ignored.\<close>

definition catch_outer :: "ChatStream \<Rightarrow> rejection \<Rightarrow> ChatStream" where
  "catch_outer s r =
     (case r of
        AbortError \<Rightarrow> s
      | _ \<Rightarrow>
          (let e = \<lparr> se_message = (case r of ErrorThrown m \<Rightarrow> m | _ \<Rightarrow> ''Failed to start stream''),
                     se_code = ''STREAM_ERROR'' \<rparr>
           in s\<lparr> streamError := Some e, status := S_error, connectionStatus := C_error,
                 callbacks := callbacks s @ [OnError e], abortControllerRef := False \<rparr>))"

text \<open>The \<open>finally\<close> of the read loop.\<close>

definition leave_loop :: "ChatStream \<Rightarrow> ChatStream" where
  "leave_loop s = s\<lparr> abortControllerRef := False, reading := False \<rparr>"

text \<open>\<open>startStream\<close> up to the read loop.\<close>

definition startStream :: "ChatStream \<Rightarrow> connect_outcome \<Rightarrow> ChatStream" where
  "startStream s outcome =
     (if abortControllerRef s then s
      else
        (let s1 = s\<lparr> status := S_connecting, connectionStatus := C_connecting, streamError := None,
                      streamedMessage := [], accumulatedMessageRef := [], completedRef := False \<rparr>;
             s2 = s1\<lparr> abortControllerRef := True \<rparr>
         in case outcome of
              TokenRejected r \<Rightarrow> catch_outer s1 r
            | FetchRejected r \<Rightarrow> catch_outer s2 r
            | HttpNotOk code statusText \<Rightarrow>
                catch_outer s2 (ErrorThrown (''HTTP '' @ show_nat code @ '': '' @ statusText))
            | BodyNull \<Rightarrow> catch_outer s2 (ErrorThrown ''Response body is null'')
            | Connected \<Rightarrow> s2\<lparr> reading := True \<rparr>))"

text \<open>
  The hook while \<open>startStream\<close> awaits \<open>getToken()\<close>: the state variables and refs are
  reset and the abort controller has not been created yet.
\<close>

definition awaiting_token :: "ChatStream \<Rightarrow> ChatStream" where
  "awaiting_token s =
     s\<lparr> status := S_connecting, connectionStatus := C_connecting, streamError := None,
        streamedMessage := [], accumulatedMessageRef := [], completedRef := False \<rparr>"

text \<open>
  The \<open>switch\<close> on a parsed event. \<open>json\<close> stands for \<open>JSON.parse(data)\<close> followed by
  the read of the \<open>error\<close> property: it throws with a message (\<open>Inl\<close>), or gives the
  property when it is truthy.
\<close>

definition on_parsed ::
  "(string \<Rightarrow> string + string option) \<Rightarrow> ChatStream \<Rightarrow> string \<Rightarrow> string \<Rightarrow> ChatStream" where
  "on_parsed json s event data =
     (if event = ''connection'' then
        s\<lparr> connectionStatus := C_connected, status := S_streaming,
            callbacks := callbacks s @ [OnConnection] \<rparr>
      else if event = ''message'' then
        (let acc = accumulatedMessageRef s @ data
         in s\<lparr> connectionStatus := C_streaming, accumulatedMessageRef := acc, streamedMessage := acc,
               callbacks := callbacks s @ [OnMessageChunk data acc] \<rparr>)
      else if event = ''complete'' then
        fire_onComplete (s\<lparr> status := S_completed, connectionStatus := C_connected \<rparr>)
      else if event = ''error'' then
        (case json data of
           Inl m \<Rightarrow> catch_outer (leave_loop s) (ErrorThrown m)
         | Inr field \<Rightarrow>
             (let e = \<lparr> se_message = (case field of Some v \<Rightarrow> v | None \<Rightarrow> ''Server error''),
                        se_code = ''SERVER_ERROR'' \<rparr>
              in s\<lparr> streamError := Some e, status := S_error, connectionStatus := C_error,
                    callbacks := callbacks s @ [OnError e] \<rparr>))
      else s)"

definition stopStream :: "ChatStream \<Rightarrow> ChatStream" where
  "stopStream s =
     (if abortControllerRef s
      then fire_onComplete (s\<lparr> abortControllerRef := False, status := S_completed \<rparr>)
      else s)"

text \<open>
  One event. A read is only awaited while the loop runs; \<open>stopStream\<close> can be called
  at any time.
\<close>

definition step ::
  "(string \<Rightarrow> string + string option) \<Rightarrow> ChatStream \<Rightarrow> stream_event \<Rightarrow> ChatStream" where
  "step json s ev =
     (case ev of
        StopStream \<Rightarrow> stopStream s
      | ReadChunk chunkText \<Rightarrow>
          if \<not> reading s then s
          else (case parseSSEChunk chunkText of
                  None \<Rightarrow> s
                | Some (event, data) \<Rightarrow> on_parsed json s event data)
      | ReadDone \<Rightarrow>
          if \<not> reading s then s
          else leave_loop (fire_onComplete (s\<lparr> status := S_completed, connectionStatus := C_connected \<rparr>))
      | ReadRejected r \<Rightarrow>
          if \<not> reading s then s
          else catch_outer (leave_loop s) r)"

definition steps ::
  "(string \<Rightarrow> string + string option) \<Rightarrow> ChatStream \<Rightarrow> stream_event list \<Rightarrow> ChatStream" where
  "steps json s evs = foldl (step json) s evs"

text \<open>How many times the completion callback has been called.\<close>

definition completions :: "ChatStream \<Rightarrow> nat" where
  "completions s =
     length (filter (\<lambda>c. case c of OnComplete _ \<Rightarrow> True | _ \<Rightarrow> False) (callbacks s))"

text \<open>
  The calls of \<open>onMessageChunk\<close> expected for the chunks \<open>cs\<close> when \<open>acc\<close> has been
  accumulated before: each chunk with the text accumulated up to and including it.
\<close>

fun chunk_callbacks :: "string \<Rightarrow> string list \<Rightarrow> callback list" where
  "chunk_callbacks acc [] = []"
| "chunk_callbacks acc (c # cs) = OnMessageChunk c (acc @ c) # chunk_callbacks (acc @ c) cs"

text \<open>The hook before its first stream.\<close>

definition initial :: ChatStream where
  "initial =
     \<lparr> status = S_idle, connectionStatus = C_disconnected, streamedMessage = [],
       streamError = None, abortControllerRef = False, accumulatedMessageRef = [],
       completedRef = False, reading = False, callbacks = [] \<rparr>"

section \<open>Names for literals and example inputs\<close>

abbreviation CONCISE :: string where
  "CONCISE \<equiv> ''\<newline>\<newline>Response Tone: Skip the fluff, speedrun the answer.\"''"

abbreviation FRIENDLY :: string where
  "FRIENDLY \<equiv> ''\<newline>\<newline>Response Tone: Helpful genius, but fun at parties.\"''"

abbreviation DETAILED :: string where
  "DETAILED \<equiv> ''\<newline>\<newline>Nerd out and spill the tea.''"

definition example_config :: OrchestratorConfig where
  "example_config =
     \<lparr> userId = ''u1'', sessionId = ''s1'', streaming = Missing,
       composioApiKey = None, connectionIds = None, toneOfResponse = Missing \<rparr>"

definition with_tone :: "string \<Rightarrow> Orchestrator" where
  "with_tone t = constructor ''sys'' (example_config\<lparr> toneOfResponse := Given t \<rparr>)"

definition example_result :: GenerateTextResult where
  "example_result =
     \<lparr> g_text = ''ok'', g_finishReason = ''stop'',
       g_usage = \<lparr> inputTokens = Some 3, outputTokens = Some 1, totalTokens = Some 4 \<rparr> \<rparr>"

definition example_calls :: "call list" where
  "example_calls =
     [Buffered ''hi'' None (Inr example_result),
      Streamed ''more'' None (Inr \<lparr> chunks = [''a'', ''b''], ending = Ends \<rparr>)]"

definition example_catalogue :: "Tool list" where
  "example_catalogue =
     [\<lparr> tool_name = ''GMAIL_SEND_EMAIL'', toolkit = ''gmail'' \<rparr>,
      \<lparr> tool_name = ''GOOGLECALENDAR_CREATE_EVENT'', toolkit = ''googlecalendar'' \<rparr>]"

definition example_externals :: Externals where
  "example_externals =
     \<lparr> getIntegration = (\<lambda>uid connector. Inr None),
       composio_tools_get = (\<lambda>uid ks. Inr (filter (\<lambda>t. toolkit t \<in> set ks) example_catalogue)),
       agent_generateText = (\<lambda>ts prompt. Inr ''2 new emails'') \<rparr>"

definition with_key :: "(string \<rightharpoonup> string) option \<Rightarrow> Orchestrator" where
  "with_key ids =
     constructor ''sys'' (example_config\<lparr> composioApiKey := Some ''key'', connectionIds := ids \<rparr>)"

definition example_json :: "string \<Rightarrow> string + string option" where
  "example_json d = Inr None"


section \<open>Properties of the orchestrator\<close>

subsection \<open>One call\<close>

lemma processMessage_throws:
  "processMessage st m ctx (Inl e) = (st', r) \<Longrightarrow>
     conversationHistory st' = conversationHistory st \<and> r = Inl e"
  by (auto simp: processMessage_def push_def pop_def Let_def split: prod.splits)

lemma processMessageStream_throws:
  "processMessageStream st m ctx (Inl e) = (st', r) \<Longrightarrow>
     conversationHistory st' = conversationHistory st \<and> r = Inl e"
  by (auto simp: processMessageStream_def push_def pop_def Let_def split: prod.splits)

lemma processMessage_success:
  "conversationHistory (fst (processMessage st m ctx (Inr res))) =
     conversationHistory st @
       [\<lparr> role = User,
           content = fst (applyTone (r_toneOfResponse (config st)) (userContent m ctx)) \<rparr>,
        \<lparr> role = Assistant, content = g_text res \<rparr>]"
  by (simp add: processMessage_def push_def Let_def split: prod.splits)

lemma processMessage_full:
  "processMessage st m ctx (Inr res) = (st', out) \<Longrightarrow>
     conversationHistory st' = conversationHistory st @
       [\<lparr> role = User,
           content = fst (applyTone (r_toneOfResponse (config st)) (userContent m ctx)) \<rparr>,
        \<lparr> role = Assistant, content = g_text res \<rparr>]
     \<and> console_warn st' =
         console_warn st @ snd (applyTone (r_toneOfResponse (config st)) (userContent m ctx))
     \<and> config st' = config st
     \<and> (\<exists>resp. out = Inr resp)"
  by (auto simp: processMessage_def push_def Let_def split: prod.splits)

lemma stream_started:
  "processMessageStream st m ctx (Inr s) = (st1, Inr g) \<Longrightarrow>
   conversationHistory st1 =
     conversationHistory st @ [\<lparr> role = User, content = userContent m ctx \<rparr>]
   \<and> config st1 = config st
   \<and> pending g = chunks s \<and> source_end g = ending s \<and> fullText g = [] \<and> \<not> completed g"
  by (auto simp: processMessageStream_def Let_def push_def)

subsection \<open>The generator\<close>

text \<open>
  Draining a generator that has not completed yields every pending chunk; the
  assistant turn is pushed when the source ends, and nothing is pushed when it fails.
\<close>

lemma drain_running:
  "\<not> completed g \<Longrightarrow>
   drain st g =
     (case source_end g of
        Ends \<Rightarrow> (push \<lparr> role = Assistant, content = fullText g @ concat (pending g) \<rparr> st,
                  finish g, pending g, None)
      | Fails e \<Rightarrow> (st, finish g, pending g, Some e))"
proof (induction "pending g" arbitrary: g)
  case Nil
  then show ?case
    by (subst drain.simps) (simp add: gen_next_def finish_def split: stream_end.splits)
next
  case (Cons c cs)
  let ?g' = "g\<lparr> pending := cs, chunkCount := chunkCount g + 1, fullText := fullText g @ c \<rparr>"
  have next_step: "gen_next st g = (st, ?g', Yield c)"
    using Cons.hyps(2)[symmetric] Cons.prems by (simp add: gen_next_def)
  have ih: "drain st ?g' =
     (case source_end ?g' of
        Ends \<Rightarrow> (push \<lparr> role = Assistant, content = fullText ?g' @ concat (pending ?g') \<rparr> st,
                  finish ?g', pending ?g', None)
      | Fails e \<Rightarrow> (st, finish ?g', pending ?g', Some e))"
    using Cons.hyps(1)[of ?g'] Cons.prems by simp
  have fin: "finish ?g' = finish g"
    using Cons.hyps(2)[symmetric] by (simp add: finish_def)
  have unfold: "drain st g =
      (case drain st ?g' of (st'', g'', cs', r) \<Rightarrow> (st'', g'', c # cs', r))"
    by (subst drain.simps) (simp only: next_step prod.case gen_result.case)
  show ?case
    unfolding unfold ih fin
    using Cons.hyps(2)[symmetric] by (simp split: stream_end.splits)
qed

lemma stream_drained:
  "processMessageStream st m ctx (Inr s) = (st1, Inr g) \<Longrightarrow>
   drain st1 g =
     (case ending s of
        Ends \<Rightarrow> (st1\<lparr> conversationHistory := conversationHistory st @
                     [\<lparr> role = User, content = userContent m ctx \<rparr>,
                      \<lparr> role = Assistant, content = concat (chunks s) \<rparr>] \<rparr>,
                  finish g, chunks s, None)
      | Fails e \<Rightarrow> (st1, finish g, chunks s, Some e))"
  by (auto simp: processMessageStream_def Let_def drain_running push_def split: stream_end.splits)

text \<open>
  After \<open>k\<close> steps the consumer holds the first \<open>k\<close> chunks, and the history has grown
  by the assistant turn exactly when the steps went past the last chunk of a source that
  ended.
\<close>

lemma take_steps_running:
  "\<not> completed g \<Longrightarrow> take_steps k st g = (st', g', cs, r) \<Longrightarrow>
     cs = take k (pending g) \<and>
     conversationHistory st' = conversationHistory st @
       (if length (pending g) < k \<and> source_end g = Ends
        then [\<lparr> role = Assistant, content = fullText g @ concat (pending g) \<rparr>] else [])"
proof (induction k arbitrary: g st st' g' cs r)
  case 0
  then show ?case by simp
next
  case (Suc k)
  show ?case
  proof (cases "pending g")
    case Nil
    with Suc.prems show ?thesis
      by (auto simp: gen_next_def push_def split: stream_end.splits)
  next
    case (Cons c rest)
    let ?g' = "g\<lparr> pending := rest, chunkCount := chunkCount g + 1, fullText := fullText g @ c \<rparr>"
    have next_step: "gen_next st g = (st, ?g', Yield c)"
      using Cons Suc.prems(1) by (simp add: gen_next_def)
    obtain st2 g2 cs2 r2 where rec: "take_steps k st ?g' = (st2, g2, cs2, r2)"
      by (cases "take_steps k st ?g'") auto
    have res: "st' = st2" "cs = c # cs2"
      using Suc.prems(2) next_step rec by auto
    have ih: "cs2 = take k (pending ?g') \<and>
        conversationHistory st2 = conversationHistory st @
          (if length (pending ?g') < k \<and> source_end ?g' = Ends
           then [\<lparr> role = Assistant, content = fullText ?g' @ concat (pending ?g') \<rparr>] else [])"
      using Suc.IH[OF _ rec] Suc.prems(1) by simp
    show ?thesis using ih res Cons by simp
  qed
qed

lemma abandon_after_running:
  assumes "\<not> completed g" and "abandon_after k st g = (st', g', cs)"
  shows "cs = take k (pending g) \<and>
     conversationHistory st' = conversationHistory st @
       (if length (pending g) < k \<and> source_end g = Ends
        then [\<lparr> role = Assistant, content = fullText g @ concat (pending g) \<rparr>] else [])"
proof -
  obtain st1 g1 cs1 r1 where t: "take_steps k st g = (st1, g1, cs1, r1)"
    by (cases "take_steps k st g") auto
  have "st' = st1" "cs = cs1"
    using assms(2) t by (auto simp: abandon_after_def gen_return_def)
  then show ?thesis using take_steps_running[OF assms(1) t] by simp
qed

subsection \<open>Sessions\<close>

lemma perform_successful:
  "successful c \<Longrightarrow>
   \<exists>u a. conversationHistory (perform st c) = conversationHistory st @ [u, a]
         \<and> role u = User \<and> role a = Assistant"
proof (cases c)
  case (Buffered m ctx gt)
  assume "successful c"
  with Buffered obtain res where "gt = Inr res" by (cases gt) auto
  with Buffered show ?thesis by (simp add: processMessage_success)
next
  case (Streamed m ctx stx)
  assume "successful c"
  with Streamed obtain s where s: "stx = Inr s" "ending s = Ends" by (cases stx) auto
  obtain st1 g where p: "processMessageStream st m ctx (Inr s) = (st1, Inr g)"
    by (simp add: processMessageStream_def Let_def)
  show ?thesis using Streamed s p stream_drained[OF p] by simp
qed

lemma run_successful:
  "\<forall>c \<in> set calls. successful c \<Longrightarrow>
   map role (conversationHistory (run st calls)) =
     map role (conversationHistory st) @ concat (replicate (length calls) [User, Assistant])"
proof (induction calls arbitrary: st)
  case Nil
  then show ?case by (simp add: run_def)
next
  case (Cons c calls)
  have "map role (conversationHistory (run (perform st c) calls)) =
     map role (conversationHistory (perform st c))
       @ concat (replicate (length calls) [User, Assistant])"
    using Cons.IH[of "perform st c"] Cons.prems by simp
  moreover have "run st (c # calls) = run (perform st c) calls" by (simp add: run_def)
  moreover obtain u a where "conversationHistory (perform st c) = conversationHistory st @ [u, a]"
      "role u = User" "role a = Assistant"
    using perform_successful[of c st] Cons.prems by auto
  ultimately show ?case by simp
qed

lemma perform_config: "config (perform st c) = config st"
proof (cases c)
  case (Buffered m ctx gt)
  then show ?thesis
    by (cases gt) (auto simp: processMessage_def push_def pop_def Let_def split: prod.splits)
next
  case (Streamed m ctx stx)
  show ?thesis
  proof (cases stx)
    case (Inl e)
    with Streamed show ?thesis by (simp add: processMessageStream_def push_def pop_def Let_def)
  next
    case (Inr s)
    obtain st1 g where p: "processMessageStream st m ctx (Inr s) = (st1, Inr g)"
      by (simp add: processMessageStream_def Let_def)
    then show ?thesis using Streamed Inr stream_started[OF p] stream_drained[OF p]
      by (auto split: stream_end.splits)
  qed
qed

lemma run_config: "config (run st calls) = config st"
  by (induction calls arbitrary: st) (simp_all add: run_def perform_config)

subsection \<open>The tone block\<close>

lemma recognised_tones:
  "toLowerCase (trim ''concise and direct'') = ''concise and direct''"
  "toLowerCase (trim ''professional and friendly'') = ''professional and friendly''"
  "toLowerCase (trim ''detailed and conversational'') = ''detailed and conversational''"
  by code_simp+

lemma applyTone_cases:
  "applyTone (Some tone) uc =
     (if tone = [] then (uc, [])
      else if toLowerCase (trim tone) = ''concise and direct'' then (uc @ CONCISE, [])
      else if toLowerCase (trim tone) = ''professional and friendly'' then (uc @ FRIENDLY, [])
      else if toLowerCase (trim tone) = ''detailed and conversational'' then (uc @ DETAILED, [])
      else (uc, [''[Orchestrator.processMessage] Invalid toneOfResponse: '' @ tone]))"
  unfolding applyTone_def Let_def option.case
  by (intro if_cong refl) auto

lemma userContent_length: "length m \<le> length (userContent m ctx)"
  by (simp add: userContent_def split: option.splits)

lemma with_tone_simps:
  "r_toneOfResponse (config (with_tone t)) = Some t"
  "conversationHistory (with_tone t) = [\<lparr> role = System, content = ''sys'' \<rparr>]"
  "console_warn (with_tone t) = []"
  by (simp_all add: with_tone_def constructor_def resolve_def spread_def example_config_def)

section \<open>Claims about the orchestrator\<close>

text \<open>
  Claim C1. When the model step of \<open>processMessage\<close> or \<open>processMessageStream\<close> throws,
  the history is as long after the failed call as before it. This holds when
  \<open>generateText\<close> rejects and when \<open>streamText\<close> throws as it is called
  (\<open>processMessage_throws\<close>, \<open>processMessageStream_throws\<close>). It does not hold when the
  model fails while its text is streamed: the \<open>try\<close> of \<open>processMessageStream\<close> has been
  left by then, the generator throws to its consumer, and the user turn stays. Here the
  source yields one chunk and fails; the history ends one turn longer, with the user
  turn last.
\<close>

theorem stream_failure_not_rolled_back:
  "(case processMessageStream (constructor ''sys'' example_config) ''hi'' None
          (Inr \<lparr> chunks = [''Hel''], ending = Fails (Error ''throttled'') \<rparr>) of
      (st1, Inr g) \<Rightarrow>
        (case drain st1 g of
           (st2, g2, cs, r) \<Rightarrow>
             r = Some (Error ''throttled'') \<and> cs = [''Hel''] \<and>
             conversationHistory st2 =
               conversationHistory (constructor ''sys'' example_config)
                 @ [\<lparr> role = User, content = ''hi'' \<rparr>] \<and>
             length (conversationHistory st2) =
               length (conversationHistory (constructor ''sys'' example_config)) + 1)
    | (st1, Inl e) \<Rightarrow> False)"
proof -
  obtain st1 g where p: "processMessageStream (constructor ''sys'' example_config) ''hi'' None
          (Inr \<lparr> chunks = [''Hel''], ending = Fails (Error ''throttled'') \<rparr>) = (st1, Inr g)"
    by (simp add: processMessageStream_def Let_def)
  show ?thesis
    using stream_drained[OF p] stream_started[OF p] by (simp add: p userContent_def)
qed

text \<open>
  Claim C2. Over any sequence of successful calls, buffered or streamed and drained, on
  an instance fresh from its constructor, the history is the system turn followed by one
  user turn and one assistant turn per call: its length is \<open>1 + 2 * n\<close>, its first turn
  is the system turn, and every single successful call appends exactly a user turn and
  an assistant turn to the history it finds.
\<close>

theorem history_integrity:
  assumes "\<forall>c \<in> set calls. successful c"
  shows "map role (conversationHistory (run (constructor sys cfg) calls)) =
           System # concat (replicate (length calls) [User, Assistant])
       \<and> length (conversationHistory (run (constructor sys cfg) calls)) = 1 + 2 * length calls
       \<and> role (hd (conversationHistory (run (constructor sys cfg) calls))) = System
       \<and> (\<forall>c st. successful c \<longrightarrow>
            (\<exists>u a. conversationHistory (perform st c) = conversationHistory st @ [u, a]
                   \<and> role u = User \<and> role a = Assistant))"
proof -
  let ?h = "conversationHistory (run (constructor sys cfg) calls)"
  have m: "map role ?h = System # concat (replicate (length calls) [User, Assistant])"
    using run_successful[OF assms, of "constructor sys cfg"] by (simp add: constructor_def)
  have "length (map role ?h) = 1 + 2 * length calls"
    unfolding m by (simp add: length_concat sum_list_replicate)
  then have l: "length ?h = 1 + 2 * length calls" by simp
  have h: "role (hd ?h) = System"
    using m by (cases ?h) auto
  show ?thesis using m l h perform_successful by blast
qed

theorem history_integrity_witness:
  "list_all successful example_calls
   \<and> length (conversationHistory (run (constructor ''sys'' example_config) example_calls)) = 5
   \<and> role (hd (conversationHistory (run (constructor ''sys'' example_config) example_calls))) = System"
proof -
  have h: "\<forall>c \<in> set example_calls. successful c" by (simp add: example_calls_def)
  show ?thesis
    using h history_integrity[OF h, of "''sys''" example_config]
    by (simp add: example_calls_def list_all_iff)
qed

text \<open>
  Claim C3. Let \<open>processMessageStream\<close> return a stream. A consumer that takes \<open>k\<close>
  chunks, \<open>k\<close> at most the number of chunks of the source, and then abandons the stream
  has received the first \<open>k\<close> chunks and leaves the history at the user turn: no
  assistant turn is committed. A consumer that drains a source that ends has received
  every chunk, and the history then ends with the assistant turn whose content is the
  concatenation of the chunks received. For any number of steps, when the history is
  more than the old history and the user turn, the steps went past the last chunk of a
  source that ended and the turn added is that assistant turn.
\<close>

theorem no_partial_commit:
  assumes "processMessageStream st m ctx (Inr s) = (st1, Inr g)"
  shows "(k \<le> length (chunks s) \<longrightarrow>
            (case abandon_after k st1 g of (st2, g2, cs) \<Rightarrow>
               cs = take k (chunks s) \<and>
               conversationHistory st2 =
                 conversationHistory st @ [\<lparr> role = User, content = userContent m ctx \<rparr>]))
       \<and> (ending s = Ends \<longrightarrow>
            (case drain st1 g of (st2, g2, cs, r) \<Rightarrow>
               r = None \<and> cs = chunks s \<and>
               conversationHistory st2 =
                 conversationHistory st @ [\<lparr> role = User, content = userContent m ctx \<rparr>,
                                           \<lparr> role = Assistant, content = concat cs \<rparr>]))
       \<and> (case abandon_after j st1 g of (st2, g2, cs) \<Rightarrow>
            conversationHistory st2 \<noteq>
              conversationHistory st @ [\<lparr> role = User, content = userContent m ctx \<rparr>] \<longrightarrow>
            length (chunks s) < j \<and> ending s = Ends \<and> cs = chunks s \<and>
            conversationHistory st2 =
              conversationHistory st @ [\<lparr> role = User, content = userContent m ctx \<rparr>,
                                        \<lparr> role = Assistant, content = concat (chunks s) \<rparr>])"
proof -
  note s = stream_started[OF assms]
  have nc: "\<not> completed g" using s by simp
  have a: "cs = take k (chunks s) \<and>
     conversationHistory st2 =
       conversationHistory st @ [\<lparr> role = User, content = userContent m ctx \<rparr>] @
         (if length (chunks s) < k \<and> ending s = Ends
          then [\<lparr> role = Assistant, content = concat (chunks s) \<rparr>] else [])"
    if "abandon_after k st1 g = (st2, g2, cs)" for k st2 g2 cs
    using abandon_after_running[OF nc that] s by simp
  have 1: "k \<le> length (chunks s) \<longrightarrow>
            (case abandon_after k st1 g of (st2, g2, cs) \<Rightarrow>
               cs = take k (chunks s) \<and>
               conversationHistory st2 =
                 conversationHistory st @ [\<lparr> role = User, content = userContent m ctx \<rparr>])"
    using a[of k] by (cases "abandon_after k st1 g") auto
  have 2: "ending s = Ends \<longrightarrow>
            (case drain st1 g of (st2, g2, cs, r) \<Rightarrow>
               r = None \<and> cs = chunks s \<and>
               conversationHistory st2 =
                 conversationHistory st @ [\<lparr> role = User, content = userContent m ctx \<rparr>,
                                           \<lparr> role = Assistant, content = concat cs \<rparr>])"
    using stream_drained[OF assms] by simp
  have 3: "(case abandon_after j st1 g of (st2, g2, cs) \<Rightarrow>
            conversationHistory st2 \<noteq>
              conversationHistory st @ [\<lparr> role = User, content = userContent m ctx \<rparr>] \<longrightarrow>
            length (chunks s) < j \<and> ending s = Ends \<and> cs = chunks s \<and>
            conversationHistory st2 =
              conversationHistory st @ [\<lparr> role = User, content = userContent m ctx \<rparr>,
                                        \<lparr> role = Assistant, content = concat (chunks s) \<rparr>])"
    using a[of j] by (cases "abandon_after j st1 g") (auto split: if_splits)
  show ?thesis using 1 2 3 by blast
qed

theorem no_partial_commit_witness:
  "processMessageStream (constructor ''sys'' example_config) ''hi'' None
       (Inr \<lparr> chunks = [''Hel'', ''lo''], ending = Ends \<rparr>)
     = (push \<lparr> role = User, content = ''hi'' \<rparr> (constructor ''sys'' example_config),
        Inr \<lparr> pending = [''Hel'', ''lo''], source_end = Ends, fullText = [], chunkCount = 0,
              completed = False \<rparr>)
   \<and> (1::nat) \<le> length (chunks \<lparr> chunks = [''Hel'', ''lo''], ending = Ends \<rparr>)
   \<and> conversationHistory
        (fst (abandon_after 1 (push \<lparr> role = User, content = ''hi'' \<rparr> (constructor ''sys'' example_config))
           \<lparr> pending = [''Hel'', ''lo''], source_end = Ends, fullText = [], chunkCount = 0,
             completed = False \<rparr>))
     = [\<lparr> role = System, content = ''sys'' \<rparr>, \<lparr> role = User, content = ''hi'' \<rparr>]
   \<and> conversationHistory
        (fst (drain (push \<lparr> role = User, content = ''hi'' \<rparr> (constructor ''sys'' example_config))
           \<lparr> pending = [''Hel'', ''lo''], source_end = Ends, fullText = [], chunkCount = 0,
             completed = False \<rparr>))
     = [\<lparr> role = System, content = ''sys'' \<rparr>, \<lparr> role = User, content = ''hi'' \<rparr>,
        \<lparr> role = Assistant, content = ''Hello'' \<rparr>]"
proof -
  have h: "processMessageStream (constructor ''sys'' example_config) ''hi'' None
       (Inr \<lparr> chunks = [''Hel'', ''lo''], ending = Ends \<rparr>)
     = (push \<lparr> role = User, content = ''hi'' \<rparr> (constructor ''sys'' example_config),
        Inr \<lparr> pending = [''Hel'', ''lo''], source_end = Ends, fullText = [], chunkCount = 0,
              completed = False \<rparr>)"
    by (simp add: processMessageStream_def userContent_def)
  show ?thesis
    using h no_partial_commit[OF h, of 1 0]
    by (simp add: case_prod_beta userContent_def constructor_def)
qed

text \<open>
  Claim C5. \<open>processMessageStream\<close> is claimed to apply the tone transform as
  \<open>processMessage\<close> does and to store the transformed content. It has no tone block:
  with the default tone the buffered call stores the message with the concise suffix,
  and the streamed call stores the message as it came.
\<close>

theorem stream_skips_tone:
  "r_toneOfResponse (config (constructor ''sys'' example_config)) = Some ''concise and direct''
   \<and> conversationHistory
        (fst (processMessage (constructor ''sys'' example_config) ''X'' None (Inr example_result)))
       = [\<lparr> role = System, content = ''sys'' \<rparr>,
          \<lparr> role = User, content = ''X'' @ CONCISE \<rparr>,
          \<lparr> role = Assistant, content = ''ok'' \<rparr>]
   \<and> conversationHistory
        (fst (processMessageStream (constructor ''sys'' example_config) ''X'' None
           (Inr \<lparr> chunks = [''ok''], ending = Ends \<rparr>)))
       = [\<lparr> role = System, content = ''sys'' \<rparr>,
          \<lparr> role = User, content = ''X'' \<rparr>]"
  by (simp add: processMessage_success processMessageStream_def constructor_def resolve_def
      example_config_def spread_def applyTone_def recognised_tones userContent_def push_def
      example_result_def)

text \<open>
  Claim C6, as amended. Let the tone of the instance be the string \<open>tone\<close>, and let a
  buffered call with the message \<open>x\<close> and no additional context succeed. The call
  returns a response. When \<open>tone\<close> is one of the three recognised values, or is not
  empty and becomes one of them once trimmed and put in lower case, the user turn is
  \<open>x\<close> followed by the suffix of that value and no warning is written. When \<open>tone\<close> is
  not empty and its trimmed lower-case form is none of the three, the user turn is \<open>x\<close>
  and one warning naming \<open>tone\<close> is written. When \<open>tone\<close> is empty, the user turn is
  \<open>x\<close> and no warning is written.
\<close>

theorem tone_directive:
  assumes "r_toneOfResponse (config st) = Some tone"
      and "processMessage st x None (Inr res) = (st', out)"
  shows "(\<exists>resp. out = Inr resp)
     \<and> (tone = ''concise and direct''
          \<or> tone \<noteq> [] \<and> toLowerCase (trim tone) = ''concise and direct'' \<longrightarrow>
          conversationHistory st' = conversationHistory st @
            [\<lparr> role = User, content = x @ CONCISE \<rparr>, \<lparr> role = Assistant, content = g_text res \<rparr>]
          \<and> console_warn st' = console_warn st)
     \<and> (tone = ''professional and friendly''
          \<or> tone \<noteq> [] \<and> toLowerCase (trim tone) = ''professional and friendly'' \<longrightarrow>
          conversationHistory st' = conversationHistory st @
            [\<lparr> role = User, content = x @ FRIENDLY \<rparr>, \<lparr> role = Assistant, content = g_text res \<rparr>]
          \<and> console_warn st' = console_warn st)
     \<and> (tone = ''detailed and conversational''
          \<or> tone \<noteq> [] \<and> toLowerCase (trim tone) = ''detailed and conversational'' \<longrightarrow>
          conversationHistory st' = conversationHistory st @
            [\<lparr> role = User, content = x @ DETAILED \<rparr>, \<lparr> role = Assistant, content = g_text res \<rparr>]
          \<and> console_warn st' = console_warn st)
     \<and> (tone \<noteq> [] \<and> toLowerCase (trim tone) \<notin>
            {''concise and direct'', ''professional and friendly'', ''detailed and conversational''} \<longrightarrow>
          conversationHistory st' = conversationHistory st @
            [\<lparr> role = User, content = x \<rparr>, \<lparr> role = Assistant, content = g_text res \<rparr>]
          \<and> console_warn st' = console_warn st @
               [''[Orchestrator.processMessage] Invalid toneOfResponse: '' @ tone])
     \<and> (tone = [] \<longrightarrow>
          conversationHistory st' = conversationHistory st @
            [\<lparr> role = User, content = x \<rparr>, \<lparr> role = Assistant, content = g_text res \<rparr>]
          \<and> console_warn st' = console_warn st)"
proof -
  note f = processMessage_full[OF assms(2), unfolded assms(1) applyTone_cases]
  have uc: "userContent x None = x" by (simp add: userContent_def)
  have 0: "\<exists>resp. out = Inr resp" using f by simp
  have 1: "tone = ''concise and direct''
          \<or> tone \<noteq> [] \<and> toLowerCase (trim tone) = ''concise and direct'' \<longrightarrow>
          conversationHistory st' = conversationHistory st @
            [\<lparr> role = User, content = x @ CONCISE \<rparr>, \<lparr> role = Assistant, content = g_text res \<rparr>]
          \<and> console_warn st' = console_warn st"
    using f uc recognised_tones(1) by auto
  have 2: "tone = ''professional and friendly''
          \<or> tone \<noteq> [] \<and> toLowerCase (trim tone) = ''professional and friendly'' \<longrightarrow>
          conversationHistory st' = conversationHistory st @
            [\<lparr> role = User, content = x @ FRIENDLY \<rparr>, \<lparr> role = Assistant, content = g_text res \<rparr>]
          \<and> console_warn st' = console_warn st"
    using f uc recognised_tones(2) by auto
  have 3: "tone = ''detailed and conversational''
          \<or> tone \<noteq> [] \<and> toLowerCase (trim tone) = ''detailed and conversational'' \<longrightarrow>
          conversationHistory st' = conversationHistory st @
            [\<lparr> role = User, content = x @ DETAILED \<rparr>, \<lparr> role = Assistant, content = g_text res \<rparr>]
          \<and> console_warn st' = console_warn st"
    using f uc recognised_tones(3) by auto
  have 4: "tone \<noteq> [] \<and> toLowerCase (trim tone) \<notin>
            {''concise and direct'', ''professional and friendly'', ''detailed and conversational''} \<longrightarrow>
          conversationHistory st' = conversationHistory st @
            [\<lparr> role = User, content = x \<rparr>, \<lparr> role = Assistant, content = g_text res \<rparr>]
          \<and> console_warn st' = console_warn st @
               [''[Orchestrator.processMessage] Invalid toneOfResponse: '' @ tone]"
    using f uc by auto
  have 5: "tone = [] \<longrightarrow>
          conversationHistory st' = conversationHistory st @
            [\<lparr> role = User, content = x \<rparr>, \<lparr> role = Assistant, content = g_text res \<rparr>]
          \<and> console_warn st' = console_warn st"
    using f uc by auto
  show ?thesis using 0 1 2 3 4 5 by blast
qed

theorem tone_directive_witness:
  "r_toneOfResponse (config (with_tone ''professional and friendly'')) = Some ''professional and friendly''
   \<and> conversationHistory
        (fst (processMessage (with_tone ''professional and friendly'') ''X'' None (Inr example_result)))
       = [\<lparr> role = System, content = ''sys'' \<rparr>,
          \<lparr> role = User, content = ''X'' @ FRIENDLY \<rparr>,
          \<lparr> role = Assistant, content = ''ok'' \<rparr>]
   \<and> ''grumpy'' \<noteq> [] \<and> toLowerCase (trim ''grumpy'') \<notin>
            {''concise and direct'', ''professional and friendly'', ''detailed and conversational''}
   \<and> conversationHistory (fst (processMessage (with_tone ''grumpy'') ''X'' None (Inr example_result)))
       = [\<lparr> role = System, content = ''sys'' \<rparr>,
          \<lparr> role = User, content = ''X'' \<rparr>,
          \<lparr> role = Assistant, content = ''ok'' \<rparr>]
   \<and> console_warn (fst (processMessage (with_tone ''grumpy'') ''X'' None (Inr example_result)))
       = [''[Orchestrator.processMessage] Invalid toneOfResponse: grumpy'']
   \<and> console_warn (fst (processMessage (with_tone []) ''X'' None (Inr example_result))) = []"
proof -
  have g: "toLowerCase (trim ''grumpy'') = ''grumpy''" by code_simp
  have p: "processMessage (with_tone t) ''X'' None (Inr example_result) =
      (fst (processMessage (with_tone t) ''X'' None (Inr example_result)),
       snd (processMessage (with_tone t) ''X'' None (Inr example_result)))" for t
    by simp
  show ?thesis
    using tone_directive[OF with_tone_simps(1) p, of "''professional and friendly''"]
          tone_directive[OF with_tone_simps(1) p, of "''grumpy''"]
          tone_directive[OF with_tone_simps(1) p, of "[]"]
    by (simp add: with_tone_simps g example_result_def)
qed

text \<open>
  Claim C6, as stated, fails at two tone values that are none of the three recognised
  ones. \<open>Concise And Direct\<close> is matched after trimming and lower-casing, so the concise
  suffix is appended and no warning is written. The empty string skips the tone block,
  so no warning is written.
\<close>

theorem tone_as_stated_counterexample:
  "''Concise And Direct'' \<notin>
      {''concise and direct'', ''professional and friendly'', ''detailed and conversational''}
   \<and> conversationHistory
        (fst (processMessage (with_tone ''Concise And Direct'') ''X'' None (Inr example_result)))
       = [\<lparr> role = System, content = ''sys'' \<rparr>,
          \<lparr> role = User, content = ''X'' @ CONCISE \<rparr>,
          \<lparr> role = Assistant, content = ''ok'' \<rparr>]
   \<and> console_warn
        (fst (processMessage (with_tone ''Concise And Direct'') ''X'' None (Inr example_result))) = []
   \<and> [] \<notin> {''concise and direct'', ''professional and friendly'', ''detailed and conversational''}
   \<and> console_warn (fst (processMessage (with_tone []) ''X'' None (Inr example_result))) = []"
proof -
  have v: "toLowerCase (trim ''Concise And Direct'') = ''concise and direct''" by code_simp
  have p: "processMessage (with_tone t) ''X'' None (Inr example_result) =
      (fst (processMessage (with_tone t) ''X'' None (Inr example_result)),
       snd (processMessage (with_tone t) ''X'' None (Inr example_result)))" for t
    by simp
  note a = processMessage_full[OF p, of "''Concise And Direct''"]
  note b = processMessage_full[OF p, of "[]"]
  show ?thesis
    using a b by (simp add: with_tone_simps applyTone_cases v userContent_def example_result_def)
qed

text \<open>
  Claim C10, as amended. When the configuration object has no \<open>toneOfResponse\<close>
  property, the tone of the instance is \<open>concise and direct\<close>, and it stays so over any
  calls. Every buffered call that succeeds then stores the user content followed by the
  concise suffix, which is never the message itself.
\<close>

theorem default_tone_is_concise:
  assumes "toneOfResponse cfg = Missing"
  shows "r_toneOfResponse (config (run (constructor sys cfg) calls)) = Some ''concise and direct''
     \<and> conversationHistory (fst (processMessage (run (constructor sys cfg) calls) m ctx (Inr res)))
         = conversationHistory (run (constructor sys cfg) calls) @
             [\<lparr> role = User, content = userContent m ctx @ CONCISE \<rparr>,
              \<lparr> role = Assistant, content = g_text res \<rparr>]
     \<and> userContent m ctx @ CONCISE \<noteq> m"
proof -
  let ?st = "run (constructor sys cfg) calls"
  have t: "r_toneOfResponse (config ?st) = Some ''concise and direct''"
    using assms by (simp add: run_config constructor_def resolve_def spread_def)
  have a: "applyTone (Some ''concise and direct'') uc = (uc @ CONCISE, [])" for uc
    by (simp add: applyTone_cases recognised_tones)
  have h: "conversationHistory (fst (processMessage ?st m ctx (Inr res)))
         = conversationHistory ?st @
             [\<lparr> role = User, content = userContent m ctx @ CONCISE \<rparr>,
              \<lparr> role = Assistant, content = g_text res \<rparr>]"
    by (simp add: processMessage_success t a)
  have n: "userContent m ctx @ CONCISE \<noteq> m"
  proof
    assume "userContent m ctx @ CONCISE = m"
    then have "length (userContent m ctx @ CONCISE) = length m" by (rule arg_cong)
    then have "length (userContent m ctx) + length CONCISE = length m"
      by (simp only: length_append)
    moreover have "0 < length CONCISE" by simp
    ultimately show False using userContent_length[of m ctx] by linarith
  qed
  show ?thesis using t h n by blast
qed

theorem default_tone_is_concise_witness:
  "toneOfResponse example_config = Missing
   \<and> conversationHistory
        (fst (processMessage (run (constructor ''sys'' example_config) []) ''My name is Ada'' None
           (Inr example_result)))
       = [\<lparr> role = System, content = ''sys'' \<rparr>,
          \<lparr> role = User, content = ''My name is Ada'' @ CONCISE \<rparr>,
          \<lparr> role = Assistant, content = ''ok'' \<rparr>]"
proof -
  have h: "toneOfResponse example_config = Missing" by (simp add: example_config_def)
  show ?thesis
    using h default_tone_is_concise[OF h, of "''sys''" "[]" "''My name is Ada''" None example_result]
    by (simp add: run_def constructor_def userContent_def example_result_def)
qed

text \<open>
  Claim C10, as stated, fails for an instance constructed without a tone value by a
  configuration object whose \<open>toneOfResponse\<close> property is \<open>undefined\<close>: the spread
  copies the \<open>undefined\<close> over the default, the tone block is skipped, and the message
  is stored as it came.
\<close>

theorem default_tone_counterexample:
  "r_toneOfResponse (config (constructor ''sys'' (example_config\<lparr> toneOfResponse := Undefined \<rparr>)))
     = None
   \<and> conversationHistory
        (fst (processMessage (constructor ''sys'' (example_config\<lparr> toneOfResponse := Undefined \<rparr>))
           ''My name is Ada'' None (Inr example_result)))
       = [\<lparr> role = System, content = ''sys'' \<rparr>,
          \<lparr> role = User, content = ''My name is Ada'' \<rparr>,
          \<lparr> role = Assistant, content = ''ok'' \<rparr>]"
proof -
  have t: "r_toneOfResponse (config (constructor ''sys'' (example_config\<lparr> toneOfResponse := Undefined \<rparr>)))
     = None"
    by (simp add: constructor_def resolve_def spread_def)
  have h: "conversationHistory (constructor ''sys'' (example_config\<lparr> toneOfResponse := Undefined \<rparr>))
     = [\<lparr> role = System, content = ''sys'' \<rparr>]"
    by (simp add: constructor_def)
  show ?thesis
    by (simp add: processMessage_success t h applyTone_def userContent_def example_result_def)
qed

section \<open>Properties of the delegation\<close>

lemma getConnectionId_none:
  "\<not> has_active_connection ext (r_userId (config st)) connector \<Longrightarrow>
   getConnectionId ext st connector = configuredId (config st) connector"
  by (auto simp: getConnectionId_def has_active_connection_def split: sum.splits option.splits)

lemma delegate_to_gmail_returns:
  "\<exists>out tr. delegate_to_gmail ext uid k (\<lambda>connector. Inr (f connector)) task = (Inr out, tr)"
  by (auto simp: delegate_to_gmail_def split: option.splits sum.splits prod.splits)

lemma delegate_to_calendar_returns:
  "\<exists>out tr. delegate_to_calendar ext uid k (\<lambda>connector. Inr (f connector)) task = (Inr out, tr)"
  by (auto simp: delegate_to_calendar_def split: option.splits sum.splits prod.splits)

lemma with_key_simps:
  "delegationTools (with_key ids) = Some (''u1'', ''key'')"
  "r_userId (config (with_key ids)) = ''u1''"
  "r_connectionIds (config (with_key ids)) = ids"
  by (simp_all add: with_key_def constructor_def resolve_def example_config_def)

lemma createGmailAgent_tools:
  assumes "toolkit_filter (composio_tools_get ext)"
      and "createGmailAgent ext uid account apiKey = (Inr agent, tr)"
  shows "\<forall>t \<in> set (tools agent). toolkit t = ''gmail''"
proof -
  from assms(2) have g: "composio_tools_get ext uid [''gmail''] = Inr (tools agent)"
    by (auto simp: createGmailAgent_def split: sum.splits)
  show ?thesis using assms(1) g unfolding toolkit_filter_def by fastforce
qed

lemma createCalendarAgent_tools:
  assumes "toolkit_filter (composio_tools_get ext)"
      and "createCalendarAgent ext uid account apiKey = (Inr agent, tr)"
  shows "\<forall>t \<in> set (tools agent). toolkit t = ''googlecalendar''"
proof -
  from assms(2) have g: "composio_tools_get ext uid [''googlecalendar''] = Inr (tools agent)"
    by (auto simp: createCalendarAgent_def split: sum.splits)
  show ?thesis using assms(1) g unfolding toolkit_filter_def by fastforce
qed

lemma delegate_to_gmail_calls:
  assumes "toolkit_filter (composio_tools_get ext)"
  shows "list_all (only_toolkit ''gmail'') (snd (delegate_to_gmail ext uid apiKey getConnId task))"
proof (cases "getConnId ''gmail''")
  case (Inl e)
  then show ?thesis by (simp add: delegate_to_gmail_def)
next
  case (Inr cid)
  show ?thesis
  proof (cases "cid = None \<or> cid = Some []")
    case True
    with Inr show ?thesis by (auto simp: delegate_to_gmail_def)
  next
    case False
    then obtain c where c: "cid = Some c" "c \<noteq> []" by (cases cid) auto
    obtain r tr where a: "createGmailAgent ext uid c apiKey = (r, tr)"
      by (cases "createGmailAgent ext uid c apiKey") auto
    have tr: "tr = [ToolsGet uid [''gmail'']]"
      using a by (auto simp: createGmailAgent_def split: sum.splits)
    show ?thesis
    proof (cases r)
      case (Inl e)
      with Inr c a tr show ?thesis by (simp add: delegate_to_gmail_def only_toolkit_def)
    next
      case (Inr agent)
      have "\<forall>t \<in> set (tools agent). toolkit t = ''gmail''"
        using createGmailAgent_tools[OF assms] a Inr by simp
      then have "list_all (\<lambda>t. toolkit t = ''gmail'') (tools agent)" by (simp add: list_all_iff)
      with \<open>getConnId ''gmail'' = Inr cid\<close> c a tr Inr show ?thesis
        by (auto simp: delegate_to_gmail_def executeGmailTask_def only_toolkit_def
            split: sum.splits)
    qed
  qed
qed

lemma delegate_to_calendar_calls:
  assumes "toolkit_filter (composio_tools_get ext)"
  shows "list_all (only_toolkit ''googlecalendar'')
           (snd (delegate_to_calendar ext uid apiKey getConnId task))"
proof (cases "getConnId ''google_calendar''")
  case (Inl e)
  then show ?thesis by (simp add: delegate_to_calendar_def)
next
  case (Inr cid)
  show ?thesis
  proof (cases "cid = None \<or> cid = Some []")
    case True
    with Inr show ?thesis by (auto simp: delegate_to_calendar_def)
  next
    case False
    then obtain c where c: "cid = Some c" "c \<noteq> []" by (cases cid) auto
    obtain r tr where a: "createCalendarAgent ext uid c apiKey = (r, tr)"
      by (cases "createCalendarAgent ext uid c apiKey") auto
    have tr: "tr = [ToolsGet uid [''googlecalendar'']]"
      using a by (auto simp: createCalendarAgent_def split: sum.splits)
    show ?thesis
    proof (cases r)
      case (Inl e)
      with Inr c a tr show ?thesis by (simp add: delegate_to_calendar_def only_toolkit_def)
    next
      case (Inr agent)
      have "\<forall>t \<in> set (tools agent). toolkit t = ''googlecalendar''"
        using createCalendarAgent_tools[OF assms] a Inr by simp
      then have "list_all (\<lambda>t. toolkit t = ''googlecalendar'') (tools agent)"
        by (simp add: list_all_iff)
      with \<open>getConnId ''google_calendar'' = Inr cid\<close> c a tr Inr show ?thesis
        by (auto simp: delegate_to_calendar_def executeCalendarTask_def only_toolkit_def
            split: sum.splits)
    qed
  qed
qed

lemma example_toolkit_filter: "toolkit_filter (composio_tools_get example_externals)"
  by (auto simp: toolkit_filter_def example_externals_def)

lemma invoke_tool_returns:
  assumes "delegationTools st = Some (uid, apiKey)"
  shows "\<exists>out tr. invoke_tool ext st t task = Some (Inr out, tr)"
  using assms delegate_to_gmail_returns[of ext uid apiKey "getConnectionId ext st" task]
        delegate_to_calendar_returns[of ext uid apiKey "getConnectionId ext st" task]
  by (cases t) (auto simp: invoke_tool_def)

text \<open>
  With the tools of an instance, the model step can only fail where the model itself
  fails: no tool throws into it.
\<close>

lemma model_invocation_completes:
  assumes "delegationTools st = Some (uid, apiKey)"
  shows "never_fails b \<Longrightarrow> \<exists>res. model_invocation ext st b = Inr res"
proof (induction b)
  case (Answers r)
  then show ?case by simp
next
  case (ModelFails e)
  then show ?case by simp
next
  case (Requests t task k)
  obtain out tr where i: "invoke_tool ext st t task = Some (Inr out, tr)"
    using invoke_tool_returns[OF assms] by blast
  have "never_fails (k out)" using Requests.prems by simp
  then have "\<exists>res. model_invocation ext st (k out) = Inr res"
    using Requests.IH[of "k out"] by (simp add: rangeI)
  then show ?case by (simp add: i)
qed

lemma processMessage_returns:
  "\<exists>st' resp. processMessage st m ctx (Inr res) = (st', Inr resp) \<and> r_text resp = g_text res"
  by (simp add: processMessage_def Let_def split: prod.splits)

section \<open>Claims about the delegation\<close>

text \<open>
  Claim C8, as amended. Take an orchestrator that has delegation tools. Every
  invocation of \<open>delegate_to_gmail\<close> or \<open>delegate_to_calendar\<close> returns \<open>{ result }\<close> or
  \<open>{ error }\<close> and does not throw, whatever the integration store, Composio and the
  sub-agent's model do; so does either tool with any connection callback that resolves.
  When the store holds no active connection of the user for the tool's connector and
  the configuration holds no connection id for it either, the tool returns the "not
  connected" error and calls neither Composio nor the model, and a model step that
  requests the tool goes on with that error as the tool's result. The respond call
  around it completes: when the model itself does not fail, whatever its tools answer,
  the model step returns and \<open>processMessage\<close> returns the response with its text.
\<close>

theorem delegation_fails_closed:
  assumes "delegationTools st = Some (uid, apiKey)"
  shows "(\<exists>out tr. invoke_tool ext st t task = Some (Inr out, tr))
     \<and> (\<exists>out tr. delegate_to_gmail ext u a (\<lambda>connector. Inr (f connector)) task = (Inr out, tr))
     \<and> (\<exists>out tr. delegate_to_calendar ext u a (\<lambda>connector. Inr (f connector)) task = (Inr out, tr))
     \<and> (\<not> has_active_connection ext (r_userId (config st)) (connector_of t)
          \<and> configuredId (config st) (connector_of t) = None \<longrightarrow>
        invoke_tool ext st t task = Some (Inr (ErrorOf (not_connected t)), [])
        \<and> model_invocation ext st (Requests t task k)
            = model_invocation ext st (k (ErrorOf (not_connected t))))
     \<and> (never_fails b \<longrightarrow>
          (\<exists>res st' resp.
             model_invocation ext st b = Inr res
             \<and> processMessage st m ctx (model_invocation ext st b) = (st', Inr resp)
             \<and> r_text resp = g_text res))"
proof -
  have 1: "\<exists>out tr. invoke_tool ext st t task = Some (Inr out, tr)"
    using invoke_tool_returns[OF assms] .
  have 2: "invoke_tool ext st t task = Some (Inr (ErrorOf (not_connected t)), [])
        \<and> model_invocation ext st (Requests t task k)
            = model_invocation ext st (k (ErrorOf (not_connected t)))"
    if "\<not> has_active_connection ext (r_userId (config st)) (connector_of t)"
       "configuredId (config st) (connector_of t) = None"
  proof -
    have "getConnectionId ext st (connector_of t) = None"
      using getConnectionId_none[OF that(1)] that(2) by simp
    then have "invoke_tool ext st t task = Some (Inr (ErrorOf (not_connected t)), [])"
      using assms
      by (cases t)
         (simp_all add: invoke_tool_def connector_of_def not_connected_def
            delegate_to_gmail_def delegate_to_calendar_def)
    then show ?thesis by simp
  qed
  have 3: "\<exists>res st' resp.
             model_invocation ext st b = Inr res
             \<and> processMessage st m ctx (model_invocation ext st b) = (st', Inr resp)
             \<and> r_text resp = g_text res" if nf: "never_fails b"
  proof -
    obtain res where r: "model_invocation ext st b = Inr res"
      using model_invocation_completes[OF assms nf] by blast
    show ?thesis using processMessage_returns[of st m ctx res] by (simp add: r)
  qed
  show ?thesis
    using 1 2 3 delegate_to_gmail_returns[of ext u a f task]
      delegate_to_calendar_returns[of ext u a f task]
    by blast
qed

theorem delegation_fails_closed_witness:
  "delegationTools (with_key None) = Some (''u1'', ''key'')
   \<and> \<not> has_active_connection example_externals (r_userId (config (with_key None))) (connector_of Gmail)
   \<and> configuredId (config (with_key None)) (connector_of Gmail) = None
   \<and> invoke_tool example_externals (with_key None) Gmail ''Search emails from today''
       = Some (Inr (ErrorOf ''Gmail not connected. Please connect Gmail first in your profile settings.''), [])
   \<and> never_fails (Requests Gmail ''Search emails from today'' (\<lambda>out. Answers example_result))
   \<and> snd (processMessage (with_key None) ''Check my emails'' None
        (model_invocation example_externals (with_key None)
           (Requests Gmail ''Search emails from today'' (\<lambda>out. Answers example_result))))
       = Inr \<lparr> r_text = ''ok'', r_finishReason = ''stop'',
               r_usage = \<lparr> inputTokens = Some 3, outputTokens = Some 1, totalTokens = Some 4 \<rparr> \<rparr>"
proof -
  have h: "\<not> has_active_connection example_externals (r_userId (config (with_key None))) (connector_of Gmail)"
    by (simp add: has_active_connection_def example_externals_def)
  have c: "configuredId (config (with_key None)) (connector_of Gmail) = None"
    by (simp add: configuredId_def with_key_simps)
  have n: "never_fails (Requests Gmail ''Search emails from today'' (\<lambda>out. Answers example_result))"
    by simp
  have p: "snd (processMessage st m ctx (Inr example_result))
       = Inr \<lparr> r_text = ''ok'', r_finishReason = ''stop'',
               r_usage = \<lparr> inputTokens = Some 3, outputTokens = Some 1, totalTokens = Some 4 \<rparr> \<rparr>"
    for st m ctx
    by (simp add: processMessage_def Let_def example_result_def split: prod.splits)
  show ?thesis
    using h c n delegation_fails_closed[OF with_key_simps(1), where ext = example_externals
        and t = Gmail and task = "''Search emails from today''"
        and k = "\<lambda>out. Answers example_result"
        and b = "Requests Gmail ''Search emails from today'' (\<lambda>out. Answers example_result)"
        and m = "''Check my emails''" and ctx = None]
    by (auto simp: with_key_simps not_connected_def p)
qed

text \<open>
  Claim C8, as stated, fails where the configuration names a connection id for the
  connector: the store holds no connection for the user, \<open>getConnectionId\<close> falls back
  to the configured id, and the tool creates the sub-agent, runs the task and returns
  its result.
\<close>

theorem delegation_fallback_counterexample:
  "\<not> has_active_connection example_externals
        (r_userId (config (with_key (Some [''gmail'' \<mapsto> ''conn_dev''])))) ''gmail''
   \<and> invoke_tool example_externals (with_key (Some [''gmail'' \<mapsto> ''conn_dev''])) Gmail ''Search emails from today''
       = Some (Inr (ResultOf ''2 new emails''),
           [ToolsGet ''u1'' [''gmail''],
            GenerateText [\<lparr> tool_name = ''GMAIL_SEND_EMAIL'', toolkit = ''gmail'' \<rparr>]
              ''You are a Gmail assistant. Search emails from today''])"
  by (simp add: has_active_connection_def example_externals_def invoke_tool_def with_key_simps
       getConnectionId_def configuredId_def delegate_to_gmail_def createGmailAgent_def
       executeGmailTask_def example_catalogue_def)

text \<open>
  Claim C9. Let every tool that \<open>composio.tools.get\<close> returns belong to a toolkit it was
  asked for. The Gmail sub-agent asks for the toolkit \<open>gmail\<close> alone and all its tools are
  of that toolkit, none of \<open>googlecalendar\<close>; the Calendar sub-agent asks for
  \<open>googlecalendar\<close> alone and all its tools are of that toolkit, none of \<open>gmail\<close>. The
  executors hand the model exactly the agent's tools, so every external call of a
  delegation tool stays within the toolkit of its capability.
\<close>

theorem delegate_isolation:
  assumes "toolkit_filter (composio_tools_get ext)"
  shows "(\<forall>agent tr. createGmailAgent ext uid account apiKey = (Inr agent, tr) \<longrightarrow>
            tr = [ToolsGet uid [''gmail'']]
            \<and> (\<forall>t \<in> set (tools agent). toolkit t = ''gmail'' \<and> toolkit t \<noteq> ''googlecalendar''))
     \<and> (\<forall>agent tr. createCalendarAgent ext uid account apiKey = (Inr agent, tr) \<longrightarrow>
            tr = [ToolsGet uid [''googlecalendar'']]
            \<and> (\<forall>t \<in> set (tools agent). toolkit t = ''googlecalendar'' \<and> toolkit t \<noteq> ''gmail''))
     \<and> snd (executeGmailTask ext agent task)
          = [GenerateText (tools agent) (''You are a Gmail assistant. '' @ task)]
     \<and> snd (executeCalendarTask ext agent task)
          = [GenerateText (tools agent) (''You are a Google Calendar assistant. '' @ task)]
     \<and> list_all (only_toolkit ''gmail'') (snd (delegate_to_gmail ext uid apiKey getConnId task))
     \<and> list_all (only_toolkit ''googlecalendar'')
          (snd (delegate_to_calendar ext uid apiKey getConnId task))"
proof -
  have 1: "tr = [ToolsGet uid [''gmail'']]
            \<and> (\<forall>t \<in> set (tools agent). toolkit t = ''gmail'' \<and> toolkit t \<noteq> ''googlecalendar'')"
    if "createGmailAgent ext uid account apiKey = (Inr agent, tr)" for agent tr
    using createGmailAgent_tools[OF assms that] that
    by (auto simp: createGmailAgent_def split: sum.splits)
  have 2: "tr = [ToolsGet uid [''googlecalendar'']]
            \<and> (\<forall>t \<in> set (tools agent). toolkit t = ''googlecalendar'' \<and> toolkit t \<noteq> ''gmail'')"
    if "createCalendarAgent ext uid account apiKey = (Inr agent, tr)" for agent tr
    using createCalendarAgent_tools[OF assms that] that
    by (auto simp: createCalendarAgent_def split: sum.splits)
  have 3: "snd (executeGmailTask ext agent task)
          = [GenerateText (tools agent) (''You are a Gmail assistant. '' @ task)]"
    by (simp add: executeGmailTask_def)
  have 4: "snd (executeCalendarTask ext agent task)
          = [GenerateText (tools agent) (''You are a Google Calendar assistant. '' @ task)]"
    by (simp add: executeCalendarTask_def)
  show ?thesis
    using 1 2 3 4 delegate_to_gmail_calls[OF assms] delegate_to_calendar_calls[OF assms]
    by blast
qed

theorem delegate_isolation_witness:
  "toolkit_filter (composio_tools_get example_externals)
   \<and> createGmailAgent example_externals ''u1'' ''conn_1'' ''key''
       = (Inr \<lparr> tools = [\<lparr> tool_name = ''GMAIL_SEND_EMAIL'', toolkit = ''gmail'' \<rparr>],
                connectedAccountId = ''conn_1'' \<rparr>,
          [ToolsGet ''u1'' [''gmail'']])
   \<and> list_all (\<lambda>t. toolkit t = ''gmail'' \<and> toolkit t \<noteq> ''googlecalendar'')
        [\<lparr> tool_name = ''GMAIL_SEND_EMAIL'', toolkit = ''gmail'' \<rparr>]
   \<and> list_all (only_toolkit ''gmail'')
        (snd (delegate_to_gmail example_externals ''u1'' ''key'' (\<lambda>c. Inr (Some ''conn_1'')) ''Say hi''))"
proof -
  have c: "createGmailAgent example_externals ''u1'' ''conn_1'' ''key''
       = (Inr \<lparr> tools = [\<lparr> tool_name = ''GMAIL_SEND_EMAIL'', toolkit = ''gmail'' \<rparr>],
                connectedAccountId = ''conn_1'' \<rparr>,
          [ToolsGet ''u1'' [''gmail'']])"
    by (simp add: createGmailAgent_def example_externals_def example_catalogue_def)
  show ?thesis
    using c delegate_isolation[OF example_toolkit_filter, where uid = "''u1''"
        and account = "''conn_1''" and apiKey = "''key''"
        and getConnId = "\<lambda>c. Inr (Some ''conn_1'')" and task = "''Say hi''"]
    by (simp add: example_toolkit_filter list_all_iff)
qed

section \<open>Properties of the event stream\<close>

subsection \<open>The completion callback\<close>

text \<open>
  The invariant of a stream: the completion callback has been called once more than
  before the stream when \<open>completedRef\<close> is set, and as often as before when it is not.
  Every event keeps it, and no event clears \<open>completedRef\<close>.
\<close>

lemma completions_append:
  "completions (s\<lparr> callbacks := callbacks s @ [c] \<rparr>) =
     completions s + (case c of OnComplete _ \<Rightarrow> 1 | _ \<Rightarrow> 0)"
  by (cases c) (simp_all add: completions_def)










lemma startStream_after_token:
  "\<not> abortControllerRef s0 \<Longrightarrow>
   startStream s0 Connected = (awaiting_token s0)\<lparr> abortControllerRef := True, reading := True \<rparr>"
  by (simp add: startStream_def awaiting_token_def Let_def)





subsection \<open>Frames of one line\<close>

text \<open>
  A \<open>message\<close> frame whose data is not empty and has no line feed is parsed back to its
  data, and a client that gets each such frame in a read of its own accumulates the
  concatenation of the chunks.
\<close>

lemma split_nl_line:
  "CHR 0x0A \<notin> set l \<Longrightarrow> split_nl (l @ CHR 0x0A # rest) = l # split_nl rest"
  by (induction l) auto

lemma split_nl_single: "CHR 0x0A \<notin> set l \<Longrightarrow> split_nl l = [l]"
  by (induction l) auto

lemma show_nat_digits: "set (show_nat n) \<subseteq> set ''0123456789'' \<and> show_nat n \<noteq> []"
proof (induction n rule: show_nat.induct)
  case (1 n)
  have d: "''0123456789'' ! k \<in> set ''0123456789''" if "k < 10" for k
    using that nth_mem[of k "''0123456789''"] by simp
  show ?case
  proof (cases "n < 10")
    case True
    then show ?thesis using d[of n] by (subst (1 2) show_nat.simps) simp
  next
    case False
    have "n mod 10 < 10" by simp
    then show ?thesis using False 1 d[of "n mod 10"]
      by (subst (1 2) show_nat.simps) auto
  qed
qed

lemma show_nat_no_lf: "CHR 0x0A \<notin> set (show_nat n)" "show_nat n \<noteq> []"
  using show_nat_digits[of n] by auto

lemma trim_message: "trim ''message'' = ''message''"
  by code_simp

lemma formatSSE_single_line:
  assumes "CHR 0x0A \<notin> set d" and "i \<noteq> []"
  shows "formatSSE \<lparr> sse_data = d, sse_event = EvMessage, sse_id = Some i, sse_retry = None \<rparr>
     = ''event: message'' @ CHR 0x0A # (''id: '' @ i) @ CHR 0x0A # (''data: '' @ d) @ CHR 0x0A # [CHR 0x0A]"
  using assms by (simp add: formatSSE_def event_name_def split_nl_single)

lemma parse_single_line:
  assumes "CHR 0x0A \<notin> set d" and "d \<noteq> []" and "CHR 0x0A \<notin> set i" and "i \<noteq> []"
  shows "parseSSEChunk (formatSSE \<lparr> sse_data = d, sse_event = EvMessage, sse_id = Some i,
                                      sse_retry = None \<rparr>) = Some (''message'', d)"
proof -
  have l1: "CHR 0x0A \<notin> set ''event: message''" by simp
  have l2: "CHR 0x0A \<notin> set (''id: '' @ i)" using assms(3) by simp
  have l3: "CHR 0x0A \<notin> set (''data: '' @ d)" using assms(1) by simp
  have sp: "split_nl (''event: message'' @ CHR 0x0A # (''id: '' @ i) @ CHR 0x0A # (''data: '' @ d) @ CHR 0x0A # [CHR 0x0A])
      = [''event: message'', ''id: '' @ i, ''data: '' @ d, [], []]"
    by (simp only: split_nl_line[OF l1] split_nl_line[OF l2] split_nl_line[OF l3]) simp
  show ?thesis
    unfolding formatSSE_single_line[OF assms(1,4)] parseSSEChunk_def sp
    using assms(2) by (simp add: startsWith_def trim_message slice_def)
qed

lemma single_line_round_trip:
  assumes "\<forall>c \<in> set cs. c \<noteq> [] \<and> CHR 0x0A \<notin> set c" and "reading s"
  shows "accumulatedMessageRef (steps json s (map ReadChunk (map formatSSE (message_frames k cs))))
           = accumulatedMessageRef s @ concat cs
       \<and> callbacks (steps json s (map ReadChunk (map formatSSE (message_frames k cs))))
           = callbacks s @ chunk_callbacks (accumulatedMessageRef s) cs
       \<and> reading (steps json s (map ReadChunk (map formatSSE (message_frames k cs))))"
  using assms
proof (induction cs arbitrary: k s)
  case Nil
  then show ?case by (simp add: steps_def)
next
  case (Cons c cs)
  let ?f = "formatSSE \<lparr> sse_data = c, sse_event = EvMessage, sse_id = Some (show_nat k), sse_retry = None \<rparr>"
  let ?s1 = "step json s (ReadChunk ?f)"
  have p: "parseSSEChunk ?f = Some (''message'', c)"
    using Cons.prems(1) parse_single_line[of c "show_nat k"] show_nat_no_lf[of k] by simp
  have s1: "accumulatedMessageRef ?s1 = accumulatedMessageRef s @ c"
       "callbacks ?s1 = callbacks s @ [OnMessageChunk c (accumulatedMessageRef s @ c)]"
       "reading ?s1"
    using Cons.prems(2) by (simp_all add: step_def p on_parsed_def Let_def)
  have u: "steps json s (map ReadChunk (map formatSSE (message_frames k (c # cs))))
         = steps json ?s1 (map ReadChunk (map formatSSE (message_frames (k + 1) cs)))"
    by (simp add: steps_def)
  show ?case
    unfolding u using Cons.IH[of ?s1 "k + 1"] Cons.prems(1) s1 by simp
qed


section \<open>Claims about the event stream\<close>

text \<open>
  Claim C4. Encoding the chunks with \<open>formatSSE\<close> and decoding them with
  \<open>parseSSEChunk\<close> and the read loop is claimed to give back the same payloads, a payload
  with line feeds included. \<open>formatSSE\<close> writes such a payload as several \<open>data:\<close>
  lines, but \<open>parseSSEChunk\<close> overwrites its data at every \<open>data:\<close> line and keeps the
  last one only. The chunk \<open>a\<close>, line feed, \<open>b\<close> arrives as \<open>b\<close>, and so does the text
  accumulated at the end of the stream; a chunk that ends with a line feed has an empty
  last line and is dropped altogether. The round trip does hold for chunks that are not
  empty and have no line feed (\<open>single_line_round_trip\<close>).
\<close>

theorem multiline_payload_lost:
  "map formatSSE (streamOrchestratorResponse [''a\<newline>b''])
     = [''event: message\<newline>id: 1\<newline>data: a\<newline>data: b\<newline>\<newline>'',
        ''event: complete\<newline>data: [DONE]\<newline>\<newline>'']
   \<and> parseSSEChunk ''event: message\<newline>id: 1\<newline>data: a\<newline>data: b\<newline>\<newline>''
       = Some (''message'', ''b'')
   \<and> callbacks (steps example_json (startStream initial Connected)
        (map ReadChunk (map formatSSE (streamOrchestratorResponse [''a\<newline>b''])) @ [ReadDone]))
       = [OnMessageChunk ''b'' ''b'', OnComplete ''b'']
   \<and> accumulatedMessageRef (steps example_json (startStream initial Connected)
        (map ReadChunk (map formatSSE (streamOrchestratorResponse [''a\<newline>b''])) @ [ReadDone]))
       = ''b''
   \<and> parseSSEChunk (formatSSE \<lparr> sse_data = ''Hi.\<newline>'', sse_event = EvMessage,
                                  sse_id = Some ''1'', sse_retry = None \<rparr>) = None"
proof -
  have id1: "show_nat (Suc 0) = ''1''"
    by (simp add: show_nat.simps)
  have wire: "map formatSSE (streamOrchestratorResponse [''a\<newline>b''])
     = [''event: message\<newline>id: 1\<newline>data: a\<newline>data: b\<newline>\<newline>'',
        ''event: complete\<newline>data: [DONE]\<newline>\<newline>'']"
    by (simp add: streamOrchestratorResponse_def formatSSE_def event_name_def id1)
  have frame: "parseSSEChunk ''event: message\<newline>id: 1\<newline>data: a\<newline>data: b\<newline>\<newline>''
       = Some (''message'', ''b'')"
    by code_simp
  have last_frame: "parseSSEChunk ''event: complete\<newline>data: [DONE]\<newline>\<newline>''
       = Some (''complete'', ''[DONE]'')"
    by code_simp
  have client: "steps example_json (startStream initial Connected)
        (map ReadChunk (map formatSSE (streamOrchestratorResponse [''a\<newline>b''])) @ [ReadDone])
     = \<lparr> status = S_completed, connectionStatus = C_connected, streamedMessage = ''b'',
         streamError = None, abortControllerRef = False, accumulatedMessageRef = ''b'',
         completedRef = True, reading = False,
         callbacks = [OnMessageChunk ''b'' ''b'', OnComplete ''b''] \<rparr>"
    unfolding wire
    by (simp add: steps_def step_def frame last_frame on_parsed_def startStream_def initial_def
        fire_onComplete_def leave_loop_def Let_def)
  have dropped: "parseSSEChunk (formatSSE \<lparr> sse_data = ''Hi.\<newline>'', sse_event = EvMessage,
                                  sse_id = Some ''1'', sse_retry = None \<rparr>) = None"
    by code_simp
  have seen: "callbacks (steps example_json (startStream initial Connected)
        (map ReadChunk (map formatSSE (streamOrchestratorResponse [''a\<newline>b''])) @ [ReadDone]))
       = [OnMessageChunk ''b'' ''b'', OnComplete ''b'']"
    unfolding client by simp
  have kept: "accumulatedMessageRef (steps example_json (startStream initial Connected)
        (map ReadChunk (map formatSSE (streamOrchestratorResponse [''a\<newline>b''])) @ [ReadDone]))
       = ''b''"
    unfolding client by simp
  show ?thesis
    by (rule conjI wire frame seen kept dropped)+
qed






end
